theory Spec2Isabelle
  imports Main "HOL-Library.Multiset" "HOL-Library.Char_ord" "HOL-Library.List_Lexorder"
begin

section \<open>Errors\<close>

text \<open>
  Go errors as values. The three sentinels of the cloudlets package are created with
  \<^verbatim>\<open>errors.New\<close> and compared by identity, so each is a constructor of its own.
  \<open>Errorf msg\<close> is an error that only carries a message (\<^verbatim>\<open>fmt.Errorf\<close> without
  \<^verbatim>\<open>%w\<close>, or whatever the API client or the template processor hands back).
  \<open>Wrapf e s\<close> is \<^verbatim>\<open>fmt.Errorf("%w: %s", e, s)\<close>.
\<close>

datatype error =
    ErrFetchingPolicy
  | ErrFetchingVersion
  | ErrCloudletTypeNotSupported
  | Errorf string
  | Wrapf error string

text \<open>The method \<^verbatim>\<open>Error()\<close>: the message of an error.\<close>

fun Error :: "error \<Rightarrow> string" where
  "Error ErrFetchingPolicy = ''unable to fetch policy with given name''"
| "Error ErrFetchingVersion = ''unable to fetch latest policy version''"
| "Error ErrCloudletTypeNotSupported = ''cloudlet type not supported''"
| "Error (Errorf msg) = msg"
| "Error (Wrapf e s) = Error e @ '': '' @ s"

text \<open>\<^verbatim>\<open>errors.Is\<close>: the target is the error itself or is reached by unwrapping.\<close>

fun errors_Is :: "error \<Rightarrow> error \<Rightarrow> bool" where
  "errors_Is (Wrapf e s) target = (Wrapf e s = target \<or> errors_Is e target)"
| "errors_Is e target = (e = target)"

section \<open>Data of the cloudlets API\<close>

text \<open>
  The structs of the API client, with the fields the exporter reads. Go's \<^verbatim>\<open>int64\<close>
  identifiers and version numbers are only compared and copied, never added to, so they
  are modelled as \<open>int\<close>. Field names carry a prefix for the struct they belong to:
  \<open>PA\<close> policy activation, \<open>P\<close> policy, \<open>PV\<close> policy version, \<open>LBV\<close> load balancer
  version, \<open>LBA\<close> load balancer activation.
\<close>

text \<open>
  The network of a policy activation is a string type of the API client, with two named
  constants; their values are those the tests write out.
\<close>

type_synonym PolicyActivationNetwork = string

definition PolicyActivationNetworkStaging :: PolicyActivationNetwork where
  "PolicyActivationNetworkStaging = ''staging''"

definition PolicyActivationNetworkProduction :: PolicyActivationNetwork where
  "PolicyActivationNetworkProduction = ''prod''"

record PolicyActivation =
  PA_Network :: PolicyActivationNetwork
  PA_PolicyInfo_Version :: int
  PA_PropertyInfo_Name :: string

record Policy =
  P_PolicyID :: int
  P_GroupID :: int
  P_Name :: string
  P_Description :: string
  P_CloudletCode :: string
  P_Activations :: "PolicyActivation list"

text \<open>
  A match rule is an interface value. \<^verbatim>\<open>getOriginIDs\<close> only tells a
  \<^verbatim>\<open>*cloudlets.MatchRuleALB\<close> from everything else, and reads
  \<^verbatim>\<open>ForwardSettings.OriginID\<close> of the former; any other rule is kept with the name of
  its Go type, which is what \<^verbatim>\<open>%T\<close> prints, and with its name.
\<close>

record MatchRuleALB =
  ALB_Name :: string
  ALB_ID :: int
  ALB_ForwardSettings_OriginID :: string

datatype MatchRule =
    PtrMatchRuleALB MatchRuleALB
  | OtherMatchRule string string

type_synonym MatchRules = "MatchRule list"

record PolicyVersion =
  PV_PolicyID :: int
  PV_Version :: int
  PV_Description :: string
  PV_MatchRuleFormat :: string
  PV_MatchRules :: MatchRules

text \<open>
  The network of a load balancer activation is another string type of the API client. The
  exporter only compares its two constants with the networks of the activations listed.
\<close>

type_synonym LoadBalancerActivationNetwork = string

definition LoadBalancerActivationNetworkStaging :: LoadBalancerActivationNetwork where
  "LoadBalancerActivationNetworkStaging = ''STAGING''"

definition LoadBalancerActivationNetworkProduction :: LoadBalancerActivationNetwork where
  "LoadBalancerActivationNetworkProduction = ''PRODUCTION''"

record LoadBalancerVersion =
  LBV_OriginID :: string
  LBV_Version :: int
  LBV_Description :: string

record LoadBalancerActivation =
  LBA_ActivatedDate :: string
  LBA_Network :: LoadBalancerActivationNetwork
  LBA_OriginID :: string
  LBA_Status :: string
  LBA_Version :: int

subsection \<open>Requests and the client\<close>

record ListPoliciesRequest =
  LP_Offset :: int
  LP_PageSize :: int

record ListPolicyVersionsRequest =
  LPV_PolicyID :: int
  LPV_IncludeRules :: bool
  LPV_PageSize :: int
  LPV_Offset :: int

record GetPolicyVersionRequest =
  GPV_PolicyID :: int
  GPV_Version :: int

text \<open>
  The interface \<^verbatim>\<open>cloudlets.Cloudlets\<close>, as far as the exporter calls it. Each method
  answers a request with an error or a value. The API is an external collaborator: the
  model fixes nothing about its answers.
\<close>

record Cloudlets =
  ListPolicies :: "ListPoliciesRequest \<Rightarrow> error + Policy list"
  ListPolicyVersions :: "ListPolicyVersionsRequest \<Rightarrow> error + PolicyVersion list"
  GetPolicyVersion :: "GetPolicyVersionRequest \<Rightarrow> error + PolicyVersion"
  ListLoadBalancerVersions :: "string \<Rightarrow> error + LoadBalancerVersion list"
  ListLoadBalancerActivations :: "string \<Rightarrow> error + LoadBalancerActivation list"

text \<open>The calls a paginating helper makes, in the order it makes them.\<close>

datatype Call =
    CallListPolicies ListPoliciesRequest
  | CallListPolicyVersions ListPolicyVersionsRequest
  | CallGetPolicyVersion GetPolicyVersionRequest

section \<open>findPolicyByName\<close>

definition pageSize :: int where
  "pageSize = 1000"

text \<open>
  The \<^verbatim>\<open>for { ... }\<close> loop of \<^verbatim>\<open>findPolicyByName\<close>. Nothing in the code bounds the
  number of rounds (a server that keeps sending full pages without the name keeps the
  loop going), so the loop is a partial function: \<open>None\<close> is "does not return". The
  result comes with the list of requests sent. The offset is a Go \<^verbatim>\<open>int\<close>; it would
  take more than \<open>2^63 div 1000\<close> rounds to overflow it, and it is modelled as \<open>int\<close>.
\<close>

partial_function (option) findPolicyByName_loop ::
  "string \<Rightarrow> Cloudlets \<Rightarrow> int \<Rightarrow> Call list \<Rightarrow> ((error + Policy) \<times> Call list) option"
where
  "findPolicyByName_loop name client offset calls =
     (let req = \<lparr>LP_Offset = offset, LP_PageSize = pageSize\<rparr>;
          calls' = calls @ [CallListPolicies req]
      in case ListPolicies client req of
           Inl err \<Rightarrow> Some (Inl err, calls')
         | Inr policies \<Rightarrow>
             (case find (\<lambda>p. P_Name p = name) policies of
                Some p \<Rightarrow> Some (Inr p, calls')
              | None \<Rightarrow>
                  if int (length policies) < pageSize
                  then Some (Inl (Errorf (''policy '' @ [CHR 0x27] @ name @ [CHR 0x27] @ '' does not exist'')), calls')
                  else findPolicyByName_loop name client (offset + pageSize) calls'))"

definition findPolicyByName ::
  "string \<Rightarrow> Cloudlets \<Rightarrow> ((error + Policy) \<times> Call list) option"
where
  "findPolicyByName name client = findPolicyByName_loop name client 0 []"

section \<open>getLatestPolicyVersion\<close>

text \<open>The inner \<^verbatim>\<open>for _, v := range versions\<close>: the running maximum, starting from what it was.\<close>

fun scanVersions :: "int \<Rightarrow> PolicyVersion list \<Rightarrow> int" where
  "scanVersions version [] = version"
| "scanVersions version (v # vs) =
     scanVersions (if PV_Version v > version then PV_Version v else version) vs"

text \<open>
  The paging loop. It leaves with an error when a page cannot be fetched and when a page
  comes back empty (whichever page that is), and with the running maximum after the first
  page shorter than \<open>pageSize\<close>.
\<close>

partial_function (option) getLatestPolicyVersion_loop ::
  "int \<Rightarrow> Cloudlets \<Rightarrow> int \<Rightarrow> int \<Rightarrow> Call list \<Rightarrow> ((error + int) \<times> Call list) option"
where
  "getLatestPolicyVersion_loop policyID client version offset calls =
     (let req = \<lparr>LPV_PolicyID = policyID, LPV_IncludeRules = False,
                  LPV_PageSize = pageSize, LPV_Offset = offset\<rparr>;
          calls' = calls @ [CallListPolicyVersions req]
      in case ListPolicyVersions client req of
           Inl err \<Rightarrow> Some (Inl err, calls')
         | Inr versions \<Rightarrow>
             if length versions = 0
             then Some (Inl (Errorf ''no policy versions found for given policy''), calls')
             else if int (length versions) < pageSize
             then Some (Inr (scanVersions version versions), calls')
             else getLatestPolicyVersion_loop policyID client
                    (scanVersions version versions) (offset + pageSize) calls')"

definition getLatestPolicyVersion ::
  "int \<Rightarrow> Cloudlets \<Rightarrow> ((error + PolicyVersion) \<times> Call list) option"
where
  "getLatestPolicyVersion policyID client =
     (case getLatestPolicyVersion_loop policyID client 0 0 [] of
        None \<Rightarrow> None
      | Some (Inl err, calls) \<Rightarrow> Some (Inl err, calls)
      | Some (Inr version, calls) \<Rightarrow>
          (let req = \<lparr>GPV_PolicyID = policyID, GPV_Version = version\<rparr>
           in case GetPolicyVersion client req of
                Inl err \<Rightarrow> Some (Inl err, calls @ [CallGetPolicyVersion req])
              | Inr policyVersion \<Rightarrow> Some (Inr policyVersion, calls @ [CallGetPolicyVersion req])))"

section \<open>getActiveVersionAndProperties\<close>

record TFPolicyActivationData =
  TFA_PolicyID :: int
  TFA_Version :: int
  TFA_Properties :: "string list"

text \<open>
  The loop over \<^verbatim>\<open>policy.Activations\<close>, with its two variables. \<^verbatim>\<open>associatedProperties\<close>
  is a slice that starts as \<^verbatim>\<open>nil\<close> and is non-nil after the first \<^verbatim>\<open>append\<close>:
  \<open>None\<close> is the nil slice.
\<close>

fun scanActivations ::
  "PolicyActivationNetwork \<Rightarrow> int \<times> string list option \<Rightarrow> PolicyActivation list
     \<Rightarrow> int \<times> string list option"
where
  "scanActivations network (version, associatedProperties) [] = (version, associatedProperties)"
| "scanActivations network (version, associatedProperties) (activation # rest) =
     (if PA_Network activation \<noteq> network
      then scanActivations network (version, associatedProperties) rest
      else scanActivations network
             (PA_PolicyInfo_Version activation,
              Some ((case associatedProperties of None \<Rightarrow> [] | Some ps \<Rightarrow> ps)
                      @ [PA_PropertyInfo_Name activation]))
             rest)"

definition getActiveVersionAndProperties ::
  "Policy \<Rightarrow> PolicyActivationNetwork \<Rightarrow> TFPolicyActivationData option"
where
  "getActiveVersionAndProperties policy network =
     (case scanActivations network (0, None) (P_Activations policy) of
        (version, None) \<Rightarrow> None
      | (version, Some associatedProperties) \<Rightarrow>
          Some \<lparr>TFA_PolicyID = P_PolicyID policy, TFA_Version = version,
                TFA_Properties = associatedProperties\<rparr>)"

section \<open>Load balancers of an ALB policy\<close>

text \<open>
  \<^verbatim>\<open>getOriginIDs\<close> collects the origin IDs in a Go map used as a set and then ranges over
  the map. The first loop is \<open>collectOriginIDs\<close>: the keys of the map, each once, here in
  the order of their first insertion. Go leaves the order in which \<^verbatim>\<open>range\<close> visits the
  keys of a map unspecified, and the runtime varies it from run to run; the order of one
  run is the parameter \<open>rangeOrder\<close>, which \<open>validRangeOrder\<close> restricts to visiting
  every key once.
\<close>

fun collectOriginIDs :: "string list \<Rightarrow> MatchRules \<Rightarrow> error + string list" where
  "collectOriginIDs originIDs [] = Inr originIDs"
| "collectOriginIDs originIDs (PtrMatchRuleALB ruleALB # rules) =
     (let originID = ALB_ForwardSettings_OriginID ruleALB
      in if originID \<noteq> []
         then collectOriginIDs
                (if originID \<in> set originIDs then originIDs else originIDs @ [originID]) rules
         else collectOriginIDs originIDs rules)"
| "collectOriginIDs originIDs (OtherMatchRule goType body # rules) =
     Inl (Errorf (''match rule type is not a MatchRuleALB: '' @ goType))"

definition validRangeOrder :: "(string list \<Rightarrow> string list) \<Rightarrow> string list \<Rightarrow> bool" where
  "validRangeOrder rangeOrder keys = (mset (rangeOrder keys) = mset keys)"

definition getOriginIDs ::
  "(string list \<Rightarrow> string list) \<Rightarrow> MatchRules \<Rightarrow> error + string list"
where
  "getOriginIDs rangeOrder rules =
     (case collectOriginIDs [] rules of
        Inl err \<Rightarrow> Inl err
      | Inr originIDs \<Rightarrow> Inr (rangeOrder originIDs))"

text \<open>The zero value of \<^verbatim>\<open>cloudlets.LoadBalancerVersion\<close>.\<close>

definition zeroLoadBalancerVersion :: LoadBalancerVersion where
  "zeroLoadBalancerVersion = \<lparr>LBV_OriginID = [], LBV_Version = 0, LBV_Description = []\<rparr>"

fun scanLoadBalancerVersions ::
  "int \<times> LoadBalancerVersion \<Rightarrow> LoadBalancerVersion list \<Rightarrow> int \<times> LoadBalancerVersion"
where
  "scanLoadBalancerVersions (ver, loadBalancerVersion) [] = (ver, loadBalancerVersion)"
| "scanLoadBalancerVersions (ver, loadBalancerVersion) (version # versions) =
     (if LBV_Version version > ver
      then scanLoadBalancerVersions (LBV_Version version, version) versions
      else scanLoadBalancerVersions (ver, loadBalancerVersion) versions)"

fun getLoadBalancers_loop ::
  "Cloudlets \<Rightarrow> LoadBalancerVersion list \<Rightarrow> string list \<Rightarrow> error + LoadBalancerVersion list"
where
  "getLoadBalancers_loop client loadBalancers [] = Inr loadBalancers"
| "getLoadBalancers_loop client loadBalancers (originID # originIDs) =
     (case ListLoadBalancerVersions client originID of
        Inl err \<Rightarrow> Inl err
      | Inr versions \<Rightarrow>
          (case scanLoadBalancerVersions (0, zeroLoadBalancerVersion) versions of
             (ver, loadBalancerVersion) \<Rightarrow>
               getLoadBalancers_loop client
                 (if ver > 0 then loadBalancers @ [loadBalancerVersion] else loadBalancers)
                 originIDs))"

definition getLoadBalancers ::
  "Cloudlets \<Rightarrow> string list \<Rightarrow> error + LoadBalancerVersion list"
where
  "getLoadBalancers client originIDs = getLoadBalancers_loop client [] originIDs"

subsection \<open>The newest activation of a load balancer\<close>

text \<open>
  \<^verbatim>\<open>sort.Slice(x, less)\<close> of Go's standard library: \<open>lessFn\<close> is asked about two
  \<^emph>\<open>indices\<close>, and the slice is permuted by swaps. For a slice of at most 6 elements every
  release of the library runs the insertion sort below (\<^verbatim>\<open>insertionSort_func\<close>; from
  Go 1.19 on for up to 12 elements); longer slices go through a quicksort that is not
  modelled, and nothing below is stated about them.
\<close>

definition swap_at :: "nat \<Rightarrow> nat \<Rightarrow> 'a list \<Rightarrow> 'a list" where
  "swap_at i j data = data[i := data ! j, j := data ! i]"

fun insertionSort_inner :: "(nat \<Rightarrow> nat \<Rightarrow> bool) \<Rightarrow> nat \<Rightarrow> 'a list \<Rightarrow> 'a list" where
  "insertionSort_inner lessFn 0 data = data"
| "insertionSort_inner lessFn (Suc j) data =
     (if lessFn (Suc j) j then insertionSort_inner lessFn j (swap_at (Suc j) j data) else data)"

definition insertionSort_func :: "(nat \<Rightarrow> nat \<Rightarrow> bool) \<Rightarrow> 'a list \<Rightarrow> 'a list" where
  "insertionSort_func lessFn data =
     foldl (\<lambda>d i. insertionSort_inner lessFn i d) data [1..<length data]"

definition sort_Slice :: "'a list \<Rightarrow> (nat \<Rightarrow> nat \<Rightarrow> bool) \<Rightarrow> 'a list" where
  "sort_Slice x lessFn = insertionSort_func lessFn x"

text \<open>
  Strings are compared as Go compares them, byte by byte (the lexicographic order of
  \<open>char list\<close>). The comparison function given to \<^verbatim>\<open>sort.Slice\<close> reads
  \<^verbatim>\<open>activations[i]\<close>, the slice as the API returned it, while the slice being sorted is
  \<^verbatim>\<open>filteredActivations\<close>; an index of the latter is always in range of the former.
\<close>

definition getApplicationLoadBalancerActivation ::
  "Cloudlets \<Rightarrow> string \<Rightarrow> LoadBalancerActivationNetwork \<Rightarrow> error + LoadBalancerActivation option"
where
  "getApplicationLoadBalancerActivation client originID network =
     (case ListLoadBalancerActivations client originID of
        Inl err \<Rightarrow> Inl err
      | Inr activations \<Rightarrow>
          (let filteredActivations =
                 sort_Slice (filter (\<lambda>act. LBA_Network act = network) activations)
                   (\<lambda>i j. LBA_ActivatedDate (activations ! i) > LBA_ActivatedDate (activations ! j))
           in if length filteredActivations > 0
              then Inr (Some (filteredActivations ! 0))
              else Inr None))"

fun getLoadBalancerActivations_loop ::
  "Cloudlets \<Rightarrow> LoadBalancerActivation list \<Rightarrow> string list
     \<Rightarrow> error + LoadBalancerActivation list"
where
  "getLoadBalancerActivations_loop client activations [] = Inr activations"
| "getLoadBalancerActivations_loop client activations (originID # originIDs) =
     (case getApplicationLoadBalancerActivation client originID
             LoadBalancerActivationNetworkProduction of
        Inl err \<Rightarrow> Inl err
      | Inr activationProd \<Rightarrow>
          (case getApplicationLoadBalancerActivation client originID
                  LoadBalancerActivationNetworkStaging of
             Inl err \<Rightarrow> Inl err
           | Inr activationStaging \<Rightarrow>
               getLoadBalancerActivations_loop client
                 (activations
                    @ (case activationProd of None \<Rightarrow> [] | Some a \<Rightarrow> [a])
                    @ (case activationStaging of None \<Rightarrow> [] | Some a \<Rightarrow> [a]))
                 originIDs))"

definition getLoadBalancerActivations ::
  "Cloudlets \<Rightarrow> string list \<Rightarrow> error + LoadBalancerActivation list"
where
  "getLoadBalancerActivations client originIDs =
     getLoadBalancerActivations_loop client [] originIDs"

section \<open>createPolicy\<close>

definition supportedCloudlets :: "string set" where
  "supportedCloudlets = {''ALB'', ''AP'', ''AS'', ''CD'', ''ER'', ''FR'', ''IG'', ''VP''}"

text \<open>
  \<^verbatim>\<open>TFPolicyData\<close>, with prefix \<open>TF\<close>. \<^verbatim>\<open>PolicyActivations\<close> is a Go map from the
  network name to the activation data; it is only written at two fixed keys and read by
  the templates, so it is a finite map.
\<close>

record TFPolicyData =
  TF_Name :: string
  TF_CloudletCode :: string
  TF_Description :: string
  TF_GroupID :: int
  TF_MatchRuleFormat :: string
  TF_MatchRules :: MatchRules
  TF_PolicyActivations :: "string \<rightharpoonup> TFPolicyActivationData"
  TF_LoadBalancers :: "LoadBalancerVersion list"
  TF_LoadBalancerActivations :: "LoadBalancerActivation list"
  TF_Section :: string

text \<open>Lines 147 to 153 of \<^verbatim>\<open>createPolicy\<close>: the map is made empty, then filled.\<close>

definition createPolicy_activations :: "Policy \<Rightarrow> (string \<rightharpoonup> TFPolicyActivationData)" where
  "createPolicy_activations policy =
     (let m = Map.empty;
          m = (case getActiveVersionAndProperties policy PolicyActivationNetworkStaging of
                 None \<Rightarrow> m
               | Some activationStaging \<Rightarrow> m(''staging'' \<mapsto> activationStaging));
          m = (case getActiveVersionAndProperties policy PolicyActivationNetworkProduction of
                 None \<Rightarrow> m
               | Some activationProd \<Rightarrow> m(''prod'' \<mapsto> activationProd))
      in m)"

text \<open>
  \<^verbatim>\<open>createPolicy\<close> returns an error or \<^verbatim>\<open>nil\<close> (\<open>None\<close>); next to it the model
  returns the data objects handed to the template processor, in order. The processor is
  the parameter \<open>ProcessTemplates\<close>. The terminal spinner and the printed lines are left
  out. The outer \<open>None\<close> is a run that does not return, which only the two paging loops
  can cause.
\<close>

definition createPolicy ::
  "(string list \<Rightarrow> string list) \<Rightarrow> string \<Rightarrow> string \<Rightarrow> Cloudlets
     \<Rightarrow> (TFPolicyData \<Rightarrow> error option) \<Rightarrow> (error option \<times> TFPolicyData list) option"
where
  "createPolicy rangeOrder policyName section client ProcessTemplates =
     (case findPolicyByName policyName client of
        None \<Rightarrow> None
      | Some (Inl err, calls) \<Rightarrow> Some (Some (Wrapf ErrFetchingPolicy (Error err)), [])
      | Some (Inr policy, calls) \<Rightarrow>
          if P_CloudletCode policy \<notin> supportedCloudlets
          then Some (Some (Wrapf ErrCloudletTypeNotSupported (P_CloudletCode policy)), [])
          else
            (case getLatestPolicyVersion (P_PolicyID policy) client of
               None \<Rightarrow> None
             | Some (Inl err, calls) \<Rightarrow> Some (Some (Wrapf ErrFetchingVersion (Error err)), [])
             | Some (Inr policyVersion, calls) \<Rightarrow>
                 (let tfPolicyData =
                        \<lparr>TF_Name = P_Name policy,
                         TF_CloudletCode = P_CloudletCode policy,
                         TF_Description = PV_Description policyVersion,
                         TF_GroupID = P_GroupID policy,
                         TF_MatchRuleFormat = PV_MatchRuleFormat policyVersion,
                         TF_MatchRules = PV_MatchRules policyVersion,
                         TF_PolicyActivations = createPolicy_activations policy,
                         TF_LoadBalancers = [],
                         TF_LoadBalancerActivations = [],
                         TF_Section = section\<rparr>
                  in if TF_CloudletCode tfPolicyData = ''ALB''
                     then
                       (case getOriginIDs rangeOrder (PV_MatchRules policyVersion) of
                          Inl err \<Rightarrow> Some (Some (Wrapf ErrFetchingVersion (Error err)), [])
                        | Inr originIDs \<Rightarrow>
                            (case getLoadBalancers client originIDs of
                               Inl err \<Rightarrow> Some (Some (Wrapf ErrFetchingVersion (Error err)), [])
                             | Inr loadBalancers \<Rightarrow>
                                 (case getLoadBalancerActivations client originIDs of
                                    Inl err \<Rightarrow>
                                      Some (Some (Wrapf ErrFetchingVersion (Error err)), [])
                                  | Inr loadBalancerActivations \<Rightarrow>
                                      (let tfPolicyData = tfPolicyData
                                             \<lparr>TF_LoadBalancers := loadBalancers,
                                              TF_LoadBalancerActivations := loadBalancerActivations\<rparr>
                                       in Some (ProcessTemplates tfPolicyData, [tfPolicyData])))))
                     else Some (ProcessTemplates tfPolicyData, [tfPolicyData]))))"

section \<open>checkForResource\<close>

text \<open>
  The DNS exporter keeps the Terraform state it has read in the package variable
  \<^verbatim>\<open>tfState\<close>, a pointer that is \<^verbatim>\<open>nil\<close> until the state is loaded. The model passes
  the variable in and returns it. \<^verbatim>\<open>readTfState\<close> is declared elsewhere in the package
  and is a parameter here: given the work path it returns an error or \<^verbatim>\<open>nil\<close>, and the
  value it leaves in \<^verbatim>\<open>tfState\<close>. A \<^verbatim>\<open>nil\<close> state without an error would make the loop
  dereference a nil pointer, which is the outcome \<open>Panics\<close>.
\<close>

record TFResource =
  TFR_Type :: string
  TFR_Name :: string

record TFState =
  TFS_Resources :: "TFResource list"

datatype 'a outcome = Returns 'a | Panics

definition checkForResource ::
  "(string \<Rightarrow> error option \<times> TFState option) \<Rightarrow> string \<Rightarrow> string \<Rightarrow> string
     \<Rightarrow> TFState option \<Rightarrow> bool outcome \<times> TFState option"
where
  "checkForResource readTfState rtype name tfWorkPath tfState =
     (case (if tfState = None then readTfState tfWorkPath else (None, tfState)) of
        (Some err, tfState') \<Rightarrow> (Returns False, tfState')
      | (None, None) \<Rightarrow> (Panics, None)
      | (None, Some st) \<Rightarrow>
          (case find (\<lambda>r. TFR_Type r = rtype \<and> TFR_Name r = name) (TFS_Resources st) of
             Some r \<Rightarrow> (Returns True, Some st)
           | None \<Rightarrow> (Returns False, Some st)))"

section \<open>The activation resources of the rendered policy\<close>

text \<open>
  Modelled from the spec: the template \<^verbatim>\<open>policy.tmpl\<close> that renders \<^verbatim>\<open>TFPolicyData\<close> into
  \<^verbatim>\<open>policy.tf\<close> is not among the sources; only the expected output of its test is
  (\<^verbatim>\<open>testdata/with_activations_and_match_rules/policy.tf\<close>). The spec asks for one
  activation resource per network that has an activation, the staging one first, each
  with the version and the associated properties of its record, and for the prod resource
  to declare a dependency on the staging resource. The layout of a block is that of the
  expected output. The spec does not say what the prod resource declares when there is
  no staging resource; the model then leaves \<^verbatim>\<open>depends_on\<close> out.
\<close>

record ActivationResource =
  AR_Label :: string
  AR_PolicyID :: int
  AR_Network :: string
  AR_Version :: int
  AR_AssociatedProperties :: "string list"
  AR_DependsOn :: "string list"

text \<open>
  Modelled from the spec: the resource block of one network, labelled
  \<open>policy_activation_\<close> and the network, carrying the fields of its activation record.
\<close>

definition activationResource ::
  "string \<Rightarrow> TFPolicyActivationData \<Rightarrow> string list \<Rightarrow> ActivationResource"
where
  "activationResource network activation dependsOn =
     \<lparr>AR_Label = ''policy_activation_'' @ network,
      AR_PolicyID = TFA_PolicyID activation,
      AR_Network = network,
      AR_Version = TFA_Version activation,
      AR_AssociatedProperties = TFA_Properties activation,
      AR_DependsOn = dependsOn\<rparr>"

text \<open>
  Modelled from the spec: the template is missing; the staging resource comes first, and
  the prod resource depends on it when it is there.
\<close>

definition policyActivationResources :: "TFPolicyData \<Rightarrow> ActivationResource list" where
  "policyActivationResources tfPolicyData =
     (case TF_PolicyActivations tfPolicyData ''staging'' of
        None \<Rightarrow> []
      | Some activation \<Rightarrow> [activationResource ''staging'' activation []])
     @ (case TF_PolicyActivations tfPolicyData ''prod'' of
          None \<Rightarrow> []
        | Some activation \<Rightarrow>
            [activationResource ''prod'' activation
               (case TF_PolicyActivations tfPolicyData ''staging'' of
                  None \<Rightarrow> []
                | Some staging \<Rightarrow>
                    [''akamai_cloudlets_policy_activation.policy_activation_staging''])])"

text \<open>Decimal numerals, as the template engine prints an integer.\<close>

definition digitChar :: "nat \<Rightarrow> char" where
  "digitChar d = ''0123456789'' ! d"

function showNat :: "nat \<Rightarrow> string" where
  "showNat n = (if n < 10 then [digitChar n] else showNat (n div 10) @ [digitChar (n mod 10)])"
  by pat_completeness auto
termination
  by (relation "measure id") auto

declare showNat.simps [simp del]

definition showInt :: "int \<Rightarrow> string" where
  "showInt i = (if i < 0 then CHR ''-'' # showNat (nat (- i)) else showNat (nat i))"

fun joinWith :: "string \<Rightarrow> string list \<Rightarrow> string" where
  "joinWith sep [] = []"
| "joinWith sep [s] = s"
| "joinWith sep (s # t # rest) = s @ sep @ joinWith sep (t # rest)"

definition quoted :: "string \<Rightarrow> string" where
  "quoted s = [CHR 0x22] @ s @ [CHR 0x22]"

text \<open>
  Modelled from the spec: the template is missing; one block as lines of text, in the layout
  of the expected \<^verbatim>\<open>policy.tf\<close>.
\<close>

definition renderActivationResource :: "ActivationResource \<Rightarrow> string list" where
  "renderActivationResource r =
     [''resource '' @ quoted ''akamai_cloudlets_policy_activation'' @ '' ''
        @ quoted (AR_Label r) @ '' {'',
      ''  policy_id = '' @ showInt (AR_PolicyID r),
      ''  network = '' @ quoted (AR_Network r),
      ''  version = '' @ showInt (AR_Version r),
      ''  associated_properties = [ ''
        @ joinWith '', '' (map quoted (AR_AssociatedProperties r)) @ '' ]'']
     @ (if AR_DependsOn r = [] then []
        else [''  depends_on = [ '' @ joinWith '', '' (AR_DependsOn r) @ '' ]''])
     @ [''}'']"

text \<open>
  Modelled from the spec: the template is missing; the blocks one after the other, each
  after an empty line.
\<close>

definition renderPolicyActivations :: "TFPolicyData \<Rightarrow> string list" where
  "renderPolicyActivations tfPolicyData =
     concat (map (\<lambda>r. [] # renderActivationResource r) (policyActivationResources tfPolicyData))"

text \<open>
  Lines 23 to 37 of the expected \<^verbatim>\<open>policy.tf\<close>: the empty line after the policy
  resource and the two activation resources.
\<close>

definition expected_policy_tf_activations :: "string list" where
  \<open>expected_policy_tf_activations =
     ['''',
      ''resource "akamai_cloudlets_policy_activation" "policy_activation_staging" {'',
      ''  policy_id = 2'',
      ''  network = "staging"'',
      ''  version = 2'',
      ''  associated_properties = [ "prp_0", "prp_1" ]'',
      ''}'',
      '''',
      ''resource "akamai_cloudlets_policy_activation" "policy_activation_prod" {'',
      ''  policy_id = 2'',
      ''  network = "prod"'',
      ''  version = 1'',
      ''  associated_properties = [ "prp_0" ]'',
      ''  depends_on = [ akamai_cloudlets_policy_activation.policy_activation_staging ]'',
      ''}'']\<close>

section \<open>A server for concrete runs\<close>

text \<open>
  For runs on concrete inputs, a client in the manner of the mocks of the tests: the
  server holds fixed lists and answers a page request with the slice of the listing that
  starts at the offset and has at most the requested size.
\<close>

definition servePage :: "int \<Rightarrow> int \<Rightarrow> 'a list \<Rightarrow> 'a list" where
  "servePage offset limit listing = take (nat limit) (drop (nat offset) listing)"

definition apiServer ::
  "Policy list \<Rightarrow> PolicyVersion list \<Rightarrow> LoadBalancerVersion list
     \<Rightarrow> LoadBalancerActivation list \<Rightarrow> Cloudlets"
where
  "apiServer policies versions loadBalancerVersions loadBalancerActivations =
     \<lparr>ListPolicies = (\<lambda>req. Inr (servePage (LP_Offset req) (LP_PageSize req) policies)),
      ListPolicyVersions = (\<lambda>req.
        Inr (servePage (LPV_Offset req) (LPV_PageSize req)
               (filter (\<lambda>v. PV_PolicyID v = LPV_PolicyID req) versions))),
      GetPolicyVersion = (\<lambda>req.
        case find (\<lambda>v. PV_PolicyID v = GPV_PolicyID req \<and> PV_Version v = GPV_Version req)
               versions of
          None \<Rightarrow> Inl (Errorf ''version not found'')
        | Some v \<Rightarrow> Inr v),
      ListLoadBalancerVersions = (\<lambda>originID.
        Inr (filter (\<lambda>v. LBV_OriginID v = originID) loadBalancerVersions)),
      ListLoadBalancerActivations = (\<lambda>originID.
        Inr (filter (\<lambda>a. LBA_OriginID a = originID) loadBalancerActivations))\<rparr>"

definition somePolicy :: Policy where
  "somePolicy = \<lparr>P_PolicyID = 1, P_GroupID = 123, P_Name = ''some policy'',
                 P_Description = [], P_CloudletCode = ''ER'', P_Activations = []\<rparr>"

definition testPolicy :: "string \<Rightarrow> PolicyActivation list \<Rightarrow> Policy" where
  "testPolicy cloudletCode activations =
     \<lparr>P_PolicyID = 2, P_GroupID = 234, P_Name = ''test_policy'',
      P_Description = ''test_policy description'', P_CloudletCode = cloudletCode,
      P_Activations = activations\<rparr>"

definition testVersions :: "MatchRules \<Rightarrow> PolicyVersion list" where
  "testVersions rules =
     [\<lparr>PV_PolicyID = 2, PV_Version = 1, PV_Description = [], PV_MatchRuleFormat = [],
       PV_MatchRules = []\<rparr>,
      \<lparr>PV_PolicyID = 2, PV_Version = 2, PV_Description = ''version 2 description'',
       PV_MatchRuleFormat = ''1.0'', PV_MatchRules = rules\<rparr>]"

text \<open>A listing of three pages, with the policy looked for as the last entry of the third.\<close>

definition listingThreePages :: "Policy list" where
  "listingThreePages = replicate 2000 somePolicy @ [somePolicy, testPolicy ''ER'' []]"

text \<open>A policy with exactly 1000 versions, numbered 1 to 1000: one full page.\<close>

definition thousandVersions :: "PolicyVersion list" where
  "thousandVersions =
     map (\<lambda>n. \<lparr>PV_PolicyID = 123, PV_Version = n, PV_Description = [],
                PV_MatchRuleFormat = [], PV_MatchRules = []\<rparr>) [1..1000]"

text \<open>The activations of the test "with activations ER" of \<^verbatim>\<open>createPolicy\<close>.\<close>

definition activationsTest :: "PolicyActivation list" where
  "activationsTest =
     [\<lparr>PA_Network = ''staging'', PA_PolicyInfo_Version = 2, PA_PropertyInfo_Name = ''test_prp_1''\<rparr>,
      \<lparr>PA_Network = ''prod'', PA_PolicyInfo_Version = 1, PA_PropertyInfo_Name = ''test_prp_1''\<rparr>,
      \<lparr>PA_Network = ''staging'', PA_PolicyInfo_Version = 2, PA_PropertyInfo_Name = ''test_prp_2''\<rparr>]"

text \<open>Two staging entries whose versions differ, the greater one first.\<close>

definition activationsNewestFirst :: "PolicyActivation list" where
  "activationsNewestFirst =
     [\<lparr>PA_Network = ''staging'', PA_PolicyInfo_Version = 3, PA_PropertyInfo_Name = ''prp_0''\<rparr>,
      \<lparr>PA_Network = ''staging'', PA_PolicyInfo_Version = 2, PA_PropertyInfo_Name = ''prp_1''\<rparr>]"

text \<open>
  The terms of the claims about the aggregation: the entries of the activation history
  that are for a network, in the order of the history, and the maximum of their versions.
\<close>

definition entriesOn :: "Policy \<Rightarrow> PolicyActivationNetwork \<Rightarrow> PolicyActivation list" where
  "entriesOn policy network = filter (\<lambda>a. PA_Network a = network) (P_Activations policy)"

definition maxVersionOn :: "Policy \<Rightarrow> PolicyActivationNetwork \<Rightarrow> int" where
  "maxVersionOn policy network = Max (set (map PA_PolicyInfo_Version (entriesOn policy network)))"

text \<open>
  One possible run of the Go runtime: \<^verbatim>\<open>range\<close> visits the keys of the map in the order
  in which they were inserted.
\<close>

definition insertionOrder :: "string list \<Rightarrow> string list" where
  "insertionOrder keys = keys"

text \<open>A template processor that saves every data object and reports no error.\<close>

definition acceptAll :: "TFPolicyData \<Rightarrow> error option" where
  "acceptAll tfPolicyData = None"

text \<open>A rule of the edge redirector, as in the tests; it is not an ALB rule.\<close>

definition ruleER :: MatchRule where
  "ruleER = OtherMatchRule ''*cloudlets.MatchRuleER'' ''some rule''"

text \<open>
  A Terraform state with a zone and a record, a \<^verbatim>\<open>readTfState\<close> that loads it, and one
  that fails because there is no state file.
\<close>

definition zoneState :: TFState where
  "zoneState = \<lparr>TFS_Resources =
     [\<lparr>TFR_Type = ''akamai_dns_zone'', TFR_Name = ''example_com''\<rparr>,
      \<lparr>TFR_Type = ''akamai_dns_record'', TFR_Name = ''example_com_www_A''\<rparr>]\<rparr>"

definition readZoneState :: "string \<Rightarrow> error option \<times> TFState option" where
  "readZoneState tfWorkPath = (None, Some zoneState)"

definition readFails :: "string \<Rightarrow> error option \<times> TFState option" where
  "readFails tfWorkPath =
     (Some (Errorf ''open terraform.tfstate: no such file or directory''), None)"

text \<open>
  The activation history of the end-to-end scenario: two staging entries of version 2,
  for the properties prp_0 and prp_1, and one prod entry of version 1 for prp_0.
\<close>

definition activationsExport :: "PolicyActivation list" where
  "activationsExport =
     [\<lparr>PA_Network = ''staging'', PA_PolicyInfo_Version = 2, PA_PropertyInfo_Name = ''prp_0''\<rparr>,
      \<lparr>PA_Network = ''staging'', PA_PolicyInfo_Version = 2, PA_PropertyInfo_Name = ''prp_1''\<rparr>,
      \<lparr>PA_Network = ''prod'', PA_PolicyInfo_Version = 1, PA_PropertyInfo_Name = ''prp_0''\<rparr>]"

text \<open>Another possible run: \<^verbatim>\<open>range\<close> visits the keys in the opposite order.\<close>

definition reverseOrder :: "string list \<Rightarrow> string list" where
  "reverseOrder keys = rev keys"

text \<open>
  An ALB policy whose rules forward to two origins (one of them used by two rules), and a
  server that has one load balancer version and one production activation for each.
\<close>

definition twoOriginRules :: MatchRules where
  "twoOriginRules =
     [PtrMatchRuleALB \<lparr>ALB_Name = ''rule a'', ALB_ID = 1, ALB_ForwardSettings_OriginID = ''origin_a''\<rparr>,
      PtrMatchRuleALB \<lparr>ALB_Name = ''rule b'', ALB_ID = 2, ALB_ForwardSettings_OriginID = ''origin_b''\<rparr>,
      PtrMatchRuleALB \<lparr>ALB_Name = ''rule c'', ALB_ID = 3, ALB_ForwardSettings_OriginID = ''origin_a''\<rparr>]"

definition twoOriginVersions :: "LoadBalancerVersion list" where
  "twoOriginVersions =
     [\<lparr>LBV_OriginID = ''origin_a'', LBV_Version = 1, LBV_Description = []\<rparr>,
      \<lparr>LBV_OriginID = ''origin_b'', LBV_Version = 1, LBV_Description = []\<rparr>]"

definition twoOriginActivations :: "LoadBalancerActivation list" where
  "twoOriginActivations =
     [\<lparr>LBA_ActivatedDate = ''2021-10-29T00:00:10.000Z'', LBA_Network = ''PRODUCTION'',
       LBA_OriginID = ''origin_a'', LBA_Status = ''active'', LBA_Version = 1\<rparr>,
      \<lparr>LBA_ActivatedDate = ''2021-10-29T00:00:20.000Z'', LBA_Network = ''PRODUCTION'',
       LBA_OriginID = ''origin_b'', LBA_Status = ''active'', LBA_Version = 1\<rparr>]"

definition twoOriginServer :: Cloudlets where
  "twoOriginServer =
     apiServer [somePolicy, testPolicy ''ALB'' []] (testVersions twoOriginRules)
       twoOriginVersions twoOriginActivations"

text \<open>
  What a run of \<^verbatim>\<open>createPolicy\<close> exports about load balancers: for each data object handed
  to the template processor, the origin IDs of \<^verbatim>\<open>LoadBalancers\<close> and of
  \<^verbatim>\<open>LoadBalancerActivations\<close>, in the order of the slices.
\<close>

definition exportedOrigins ::
  "(error option \<times> TFPolicyData list) option \<Rightarrow> (string list \<times> string list) list" where
  "exportedOrigins run =
     (case run of
        None \<Rightarrow> []
      | Some (result, datas) \<Rightarrow>
          map (\<lambda>d. (map LBV_OriginID (TF_LoadBalancers d),
                    map LBA_OriginID (TF_LoadBalancerActivations d))) datas)"

text \<open>
  The activations of one origin, as the API lists them: a staging activation, a later
  production activation, and an earlier staging activation.
\<close>

definition stagingNewer :: LoadBalancerActivation where
  "stagingNewer = \<lparr>LBA_ActivatedDate = ''2021-10-29T00:00:20.000Z'', LBA_Network = ''STAGING'',
     LBA_OriginID = ''test_origin'', LBA_Status = ''active'', LBA_Version = 2\<rparr>"

definition productionNewest :: LoadBalancerActivation where
  "productionNewest = \<lparr>LBA_ActivatedDate = ''2021-10-29T00:00:30.000Z'', LBA_Network = ''PRODUCTION'',
     LBA_OriginID = ''test_origin'', LBA_Status = ''active'', LBA_Version = 2\<rparr>"

definition stagingOlder :: LoadBalancerActivation where
  "stagingOlder = \<lparr>LBA_ActivatedDate = ''2021-10-29T00:00:10.000Z'', LBA_Network = ''STAGING'',
     LBA_OriginID = ''test_origin'', LBA_Status = ''inactive'', LBA_Version = 1\<rparr>"

section \<open>Properties of findPolicyByName\<close>


lemma find_first_match:
  "\<forall>q\<in>set before. \<not> P q \<Longrightarrow> P p \<Longrightarrow> find P (before @ p # after) = Some p"
  by (induction before) auto

lemma findPolicyByName_loop_hit:
  assumes "ListPolicies client \<lparr>LP_Offset = offset, LP_PageSize = 1000\<rparr> = Inr page"
    and "find (\<lambda>p. P_Name p = name) page = Some p"
  shows "findPolicyByName_loop name client offset calls =
           Some (Inr p, calls @ [CallListPolicies \<lparr>LP_Offset = offset, LP_PageSize = 1000\<rparr>])"
  using assms by (subst findPolicyByName_loop.simps) (simp add: pageSize_def)

lemma findPolicyByName_loop_end:
  assumes "ListPolicies client \<lparr>LP_Offset = offset, LP_PageSize = 1000\<rparr> = Inr page"
    and "find (\<lambda>p. P_Name p = name) page = None"
    and "length page < 1000"
  shows "findPolicyByName_loop name client offset calls =
           Some (Inl (Errorf (''policy '' @ [CHR 0x27] @ name @ [CHR 0x27] @ '' does not exist'')),
                 calls @ [CallListPolicies \<lparr>LP_Offset = offset, LP_PageSize = 1000\<rparr>])"
  using assms by (subst findPolicyByName_loop.simps) (simp add: pageSize_def)

lemma findPolicyByName_loop_next:
  assumes "ListPolicies client \<lparr>LP_Offset = offset, LP_PageSize = 1000\<rparr> = Inr page"
    and "find (\<lambda>p. P_Name p = name) page = None"
    and "1000 \<le> length page"
  shows "findPolicyByName_loop name client offset calls =
           findPolicyByName_loop name client (offset + 1000)
             (calls @ [CallListPolicies \<lparr>LP_Offset = offset, LP_PageSize = 1000\<rparr>])"
  using assms by (subst findPolicyByName_loop.simps) (simp add: pageSize_def)

lemma findPolicyByName_loop_skip:
  assumes "\<forall>j<n. \<exists>page. ListPolicies client \<lparr>LP_Offset = int j * 1000, LP_PageSize = 1000\<rparr> = Inr page
              \<and> 1000 \<le> length page \<and> (\<forall>q\<in>set page. P_Name q \<noteq> name)"
  shows "findPolicyByName_loop name client 0 [] =
           findPolicyByName_loop name client (int n * 1000)
             (map (\<lambda>j. CallListPolicies \<lparr>LP_Offset = int j * 1000, LP_PageSize = 1000\<rparr>) [0..<n])"
  using assms
proof (induction n)
  case 0
  show ?case by simp
next
  case (Suc n)
  from Suc.prems obtain page where
    page: "ListPolicies client \<lparr>LP_Offset = int n * 1000, LP_PageSize = 1000\<rparr> = Inr page"
    "1000 \<le> length page" "\<forall>q\<in>set page. P_Name q \<noteq> name"
    by blast
  have miss: "find (\<lambda>p. P_Name p = name) page = None"
    using page(3) by (auto simp: find_None_iff)
  have "findPolicyByName_loop name client 0 [] =
          findPolicyByName_loop name client (int n * 1000)
            (map (\<lambda>j. CallListPolicies \<lparr>LP_Offset = int j * 1000, LP_PageSize = 1000\<rparr>) [0..<n])"
    using Suc by simp
  also have "\<dots> = findPolicyByName_loop name client (int n * 1000 + 1000)
            (map (\<lambda>j. CallListPolicies \<lparr>LP_Offset = int j * 1000, LP_PageSize = 1000\<rparr>) [0..<n]
               @ [CallListPolicies \<lparr>LP_Offset = int n * 1000, LP_PageSize = 1000\<rparr>])"
    by (rule findPolicyByName_loop_next [OF page(1) miss page(2)])
  finally show ?case by (simp add: algebra_simps)
qed

text \<open>
  Claim C1. Let the policy looked for first appear on page \<open>k\<close> of the listing: the
  \<open>k - 1\<close> pages before it (those at offsets 0, 1000, ...) are returned full and without
  a policy of that name, and the page at offset \<open>(k - 1) * 1000\<close> holds \<open>p\<close>, whose name
  is the requested one, after entries \<open>before\<close> of other names and before any entries
  \<open>after\<close>. Then \<^verbatim>\<open>findPolicyByName\<close> returns, it returns \<open>p\<close>, and it has sent exactly the
  \<open>k\<close> page requests of size 1000 at offsets 0, 1000, ..., \<open>(k - 1) * 1000\<close>, wherever in
  its page \<open>p\<close> stands. Names are compared as strings, by equality.
\<close>

theorem findPolicyByName_page_k:
  assumes "0 < k"
    and "\<forall>j<k - 1. \<exists>page. ListPolicies client \<lparr>LP_Offset = int j * 1000, LP_PageSize = 1000\<rparr> = Inr page
              \<and> 1000 \<le> length page \<and> (\<forall>q\<in>set page. P_Name q \<noteq> name)"
    and "ListPolicies client \<lparr>LP_Offset = int (k - 1) * 1000, LP_PageSize = 1000\<rparr>
           = Inr (before @ p # after)"
    and "\<forall>q\<in>set before. P_Name q \<noteq> name"
    and "P_Name p = name"
  shows "findPolicyByName name client =
           Some (Inr p, map (\<lambda>j. CallListPolicies \<lparr>LP_Offset = int j * 1000, LP_PageSize = 1000\<rparr>) [0..<k])"
proof -
  have hit: "find (\<lambda>q. P_Name q = name) (before @ p # after) = Some p"
    using assms(4,5) by (intro find_first_match) auto
  have "findPolicyByName name client =
          findPolicyByName_loop name client (int (k - 1) * 1000)
            (map (\<lambda>j. CallListPolicies \<lparr>LP_Offset = int j * 1000, LP_PageSize = 1000\<rparr>) [0..<k - 1])"
    unfolding findPolicyByName_def by (rule findPolicyByName_loop_skip [OF assms(2)])
  also have "\<dots> = Some (Inr p,
       map (\<lambda>j. CallListPolicies \<lparr>LP_Offset = int j * 1000, LP_PageSize = 1000\<rparr>) [0..<k - 1]
         @ [CallListPolicies \<lparr>LP_Offset = int (k - 1) * 1000, LP_PageSize = 1000\<rparr>])"
    by (rule findPolicyByName_loop_hit [OF assms(3) hit])
  also have "map (\<lambda>j. CallListPolicies \<lparr>LP_Offset = int j * 1000, LP_PageSize = 1000\<rparr>) [0..<k - 1]
         @ [CallListPolicies \<lparr>LP_Offset = int (k - 1) * 1000, LP_PageSize = 1000\<rparr>]
       = map (\<lambda>j. CallListPolicies \<lparr>LP_Offset = int j * 1000, LP_PageSize = 1000\<rparr>) [0..<k]"
  proof -
    from assms(1) obtain m where "k = Suc m" by (cases k) auto
    then show ?thesis by simp
  qed
  finally show ?thesis .
qed

text \<open>
  Claim C3. If every page the server returns for a request of size 1000 is shorter than
  1000 and holds no policy of the requested name, \<^verbatim>\<open>findPolicyByName\<close> returns (the
  result is not \<open>None\<close>), after a single request, and what it returns is the not-found
  error and not a policy.
\<close>

theorem findPolicyByName_short_pages_not_found:
  assumes "\<forall>offset. \<exists>page.
              ListPolicies client \<lparr>LP_Offset = offset, LP_PageSize = 1000\<rparr> = Inr page
              \<and> length page < 1000 \<and> (\<forall>q\<in>set page. P_Name q \<noteq> name)"
  shows "findPolicyByName name client =
           Some (Inl (Errorf (''policy '' @ [CHR 0x27] @ name @ [CHR 0x27] @ '' does not exist'')),
                 [CallListPolicies \<lparr>LP_Offset = 0, LP_PageSize = 1000\<rparr>])"
proof -
  from assms obtain page where
    page: "ListPolicies client \<lparr>LP_Offset = 0, LP_PageSize = 1000\<rparr> = Inr page"
      "length page < 1000"
      "\<forall>q\<in>set page. P_Name q \<noteq> name"
    by blast
  have miss: "find (\<lambda>p. P_Name p = name) page = None"
    using page(3) by (auto simp: find_None_iff)
  note short = page(2)
  show ?thesis
    unfolding findPolicyByName_def
    using findPolicyByName_loop_end [OF page(1) miss short, of "[]"] by simp
qed


text \<open>The test "policy found on 3rd page": two full pages, then the page with the policy.\<close>

lemma listingThreePages_pages:
  "servePage 0 1000 listingThreePages = replicate 1000 somePolicy"
  "servePage 1000 1000 listingThreePages = replicate 1000 somePolicy"
  "servePage 2000 1000 listingThreePages = [somePolicy, testPolicy ''ER'' []]"
  by (simp_all add: servePage_def listingThreePages_def)

theorem findPolicyByName_page_k_witness:
  "findPolicyByName ''test_policy'' (apiServer listingThreePages [] [] []) =
     Some (Inr (testPolicy ''ER'' []),
           [CallListPolicies \<lparr>LP_Offset = 0, LP_PageSize = 1000\<rparr>,
            CallListPolicies \<lparr>LP_Offset = 1000, LP_PageSize = 1000\<rparr>,
            CallListPolicies \<lparr>LP_Offset = 2000, LP_PageSize = 1000\<rparr>])"
proof -
  let ?client = "apiServer listingThreePages [] [] []"
  have full: "\<forall>j<3 - 1. \<exists>page.
      ListPolicies ?client \<lparr>LP_Offset = int j * 1000, LP_PageSize = 1000\<rparr> = Inr page
      \<and> 1000 \<le> length page \<and> (\<forall>q\<in>set page. P_Name q \<noteq> ''test_policy'')"
  proof (intro allI impI)
    fix j :: nat
    assume "j < 3 - 1"
    then have "j = 0 \<or> j = 1" by auto
    then show "\<exists>page.
      ListPolicies ?client \<lparr>LP_Offset = int j * 1000, LP_PageSize = 1000\<rparr> = Inr page
      \<and> 1000 \<le> length page \<and> (\<forall>q\<in>set page. P_Name q \<noteq> ''test_policy'')"
      by (auto simp: apiServer_def listingThreePages_pages somePolicy_def)
  qed
  have last: "ListPolicies ?client \<lparr>LP_Offset = int (3 - 1) * 1000, LP_PageSize = 1000\<rparr>
                = Inr ([somePolicy] @ testPolicy ''ER'' [] # [])"
    by (simp add: apiServer_def listingThreePages_pages)
  have "findPolicyByName ''test_policy'' ?client =
          Some (Inr (testPolicy ''ER'' []),
                map (\<lambda>j. CallListPolicies \<lparr>LP_Offset = int j * 1000, LP_PageSize = 1000\<rparr>) [0..<3])"
    by (rule findPolicyByName_page_k [OF _ full last])
       (simp_all add: somePolicy_def testPolicy_def)
  then show ?thesis by (simp add: numeral_3_eq_3)
qed

text \<open>The test "policy not found" of \<^verbatim>\<open>createPolicy\<close>: one short page without the name.\<close>

theorem findPolicyByName_short_pages_not_found_witness:
  "findPolicyByName ''test_policy'' (apiServer [somePolicy] [] [] []) =
     Some (Inl (Errorf ''policy 'test_policy' does not exist''),
           [CallListPolicies \<lparr>LP_Offset = 0, LP_PageSize = 1000\<rparr>])"
proof -
  have "\<forall>offset. \<exists>page.
          ListPolicies (apiServer [somePolicy] [] [] []) \<lparr>LP_Offset = offset, LP_PageSize = 1000\<rparr>
            = Inr page
          \<and> length page < 1000 \<and> (\<forall>q\<in>set page. P_Name q \<noteq> ''test_policy'')"
    by (auto simp: apiServer_def servePage_def somePolicy_def dest: in_set_dropD)
  from findPolicyByName_short_pages_not_found [OF this] show ?thesis by simp
qed

section \<open>Properties of getLatestPolicyVersion\<close>

text \<open>The running maximum starts at 0, the zero value of \<^verbatim>\<open>var version int64\<close>.\<close>

lemma scanVersions_Max:
  "scanVersions version vs = Max (insert version (PV_Version ` set vs))"
proof (induction vs arbitrary: version)
  case Nil
  show ?case by simp
next
  case (Cons v vs)
  let ?S = "PV_Version ` set vs"
  have step: "(if PV_Version v > version then PV_Version v else version)
                = max version (PV_Version v)"
    by (simp add: max_def)
  have "Max (insert (max version (PV_Version v)) ?S)
          = Max (insert version (insert (PV_Version v) ?S))"
  proof (cases "?S = {}")
    case True
    then show ?thesis by simp
  next
    case False
    then show ?thesis by (simp add: max.assoc)
  qed
  then show ?case
    using Cons.IH [of "max version (PV_Version v)"] by (simp only: scanVersions.simps step list.set image_insert)
qed

lemma getLatestPolicyVersion_loop_error:
  assumes "ListPolicyVersions client \<lparr>LPV_PolicyID = policyID, LPV_IncludeRules = False,
             LPV_PageSize = 1000, LPV_Offset = offset\<rparr> = Inl err"
  shows "getLatestPolicyVersion_loop policyID client version offset calls =
           Some (Inl err,
                 calls @ [CallListPolicyVersions \<lparr>LPV_PolicyID = policyID,
                   LPV_IncludeRules = False, LPV_PageSize = 1000, LPV_Offset = offset\<rparr>])"
  using assms by (subst getLatestPolicyVersion_loop.simps) (simp add: pageSize_def)

lemma getLatestPolicyVersion_loop_empty:
  assumes "ListPolicyVersions client \<lparr>LPV_PolicyID = policyID, LPV_IncludeRules = False,
             LPV_PageSize = 1000, LPV_Offset = offset\<rparr> = Inr []"
  shows "getLatestPolicyVersion_loop policyID client version offset calls =
           Some (Inl (Errorf ''no policy versions found for given policy''),
                 calls @ [CallListPolicyVersions \<lparr>LPV_PolicyID = policyID,
                   LPV_IncludeRules = False, LPV_PageSize = 1000, LPV_Offset = offset\<rparr>])"
  using assms by (subst getLatestPolicyVersion_loop.simps) (simp add: pageSize_def)

lemma getLatestPolicyVersion_loop_last:
  assumes "ListPolicyVersions client \<lparr>LPV_PolicyID = policyID, LPV_IncludeRules = False,
             LPV_PageSize = 1000, LPV_Offset = offset\<rparr> = Inr versions"
    and "versions \<noteq> []" and "length versions < 1000"
  shows "getLatestPolicyVersion_loop policyID client version offset calls =
           Some (Inr (scanVersions version versions),
                 calls @ [CallListPolicyVersions \<lparr>LPV_PolicyID = policyID,
                   LPV_IncludeRules = False, LPV_PageSize = 1000, LPV_Offset = offset\<rparr>])"
  using assms by (subst getLatestPolicyVersion_loop.simps) (simp add: pageSize_def)

lemma getLatestPolicyVersion_loop_next:
  assumes "ListPolicyVersions client \<lparr>LPV_PolicyID = policyID, LPV_IncludeRules = False,
             LPV_PageSize = 1000, LPV_Offset = offset\<rparr> = Inr versions"
    and "1000 \<le> length versions"
  shows "getLatestPolicyVersion_loop policyID client version offset calls =
           getLatestPolicyVersion_loop policyID client (scanVersions version versions)
             (offset + 1000)
             (calls @ [CallListPolicyVersions \<lparr>LPV_PolicyID = policyID,
                LPV_IncludeRules = False, LPV_PageSize = 1000, LPV_Offset = offset\<rparr>])"
proof -
  from assms(2) have "length versions \<noteq> 0" "\<not> int (length versions) < 1000" by auto
  with assms(1) show ?thesis
    by (subst getLatestPolicyVersion_loop.simps) (simp add: pageSize_def del: length_0_conv)
qed

text \<open>
  What does hold: when the first page is not empty and shorter than 1000, the version
  fetched is the maximum of that page (and of 0).
\<close>

lemma getLatestPolicyVersion_single_page:
  assumes "ListPolicyVersions client \<lparr>LPV_PolicyID = policyID, LPV_IncludeRules = False,
             LPV_PageSize = 1000, LPV_Offset = 0\<rparr> = Inr versions"
    and "versions \<noteq> []" and "length versions < 1000"
  shows "getLatestPolicyVersion policyID client =
           Some (GetPolicyVersion client
                   \<lparr>GPV_PolicyID = policyID,
                    GPV_Version = Max (insert 0 (PV_Version ` set versions))\<rparr>,
                 [CallListPolicyVersions \<lparr>LPV_PolicyID = policyID, LPV_IncludeRules = False,
                    LPV_PageSize = 1000, LPV_Offset = 0\<rparr>,
                  CallGetPolicyVersion
                    \<lparr>GPV_PolicyID = policyID,
                     GPV_Version = Max (insert 0 (PV_Version ` set versions))\<rparr>])"
  using getLatestPolicyVersion_loop_last [OF assms, of 0 "[]"]
  by (simp add: getLatestPolicyVersion_def scanVersions_Max Let_def split: sum.splits)

lemma scanVersions_append:
  "scanVersions version (xs @ ys) = scanVersions (scanVersions version xs) ys"
  by (induction xs arbitrary: version) simp_all

lemma getLatestPolicyVersion_loop_skip:
  assumes "n \<le> length pages"
    and "\<forall>j<n. ListPolicyVersions client \<lparr>LPV_PolicyID = policyID, LPV_IncludeRules = False,
                    LPV_PageSize = 1000, LPV_Offset = int j * 1000\<rparr> = Inr (pages ! j)
               \<and> 1000 \<le> length (pages ! j)"
  shows "getLatestPolicyVersion_loop policyID client 0 0 [] =
           getLatestPolicyVersion_loop policyID client
             (scanVersions 0 (concat (take n pages))) (int n * 1000)
             (map (\<lambda>j. CallListPolicyVersions \<lparr>LPV_PolicyID = policyID,
                          LPV_IncludeRules = False, LPV_PageSize = 1000,
                          LPV_Offset = int j * 1000\<rparr>) [0..<n])"
  using assms
proof (induction n)
  case 0
  show ?case by simp
next
  case (Suc n)
  from Suc.prems have n: "n < length pages" by simp
  from Suc.prems have
    page: "ListPolicyVersions client \<lparr>LPV_PolicyID = policyID, LPV_IncludeRules = False,
             LPV_PageSize = 1000, LPV_Offset = int n * 1000\<rparr> = Inr (pages ! n)"
    and full: "1000 \<le> length (pages ! n)"
    by simp_all
  have "getLatestPolicyVersion_loop policyID client 0 0 [] =
          getLatestPolicyVersion_loop policyID client
             (scanVersions 0 (concat (take n pages))) (int n * 1000)
             (map (\<lambda>j. CallListPolicyVersions \<lparr>LPV_PolicyID = policyID,
                          LPV_IncludeRules = False, LPV_PageSize = 1000,
                          LPV_Offset = int j * 1000\<rparr>) [0..<n])"
    using Suc by simp
  also have "\<dots> = getLatestPolicyVersion_loop policyID client
             (scanVersions (scanVersions 0 (concat (take n pages))) (pages ! n))
             (int n * 1000 + 1000)
             (map (\<lambda>j. CallListPolicyVersions \<lparr>LPV_PolicyID = policyID,
                          LPV_IncludeRules = False, LPV_PageSize = 1000,
                          LPV_Offset = int j * 1000\<rparr>) [0..<n]
              @ [CallListPolicyVersions \<lparr>LPV_PolicyID = policyID,
                   LPV_IncludeRules = False, LPV_PageSize = 1000, LPV_Offset = int n * 1000\<rparr>])"
    by (rule getLatestPolicyVersion_loop_next [OF page full])
  finally show ?case
    using n by (simp add: take_Suc_conv_app_nth scanVersions_append algebra_simps)
qed

text \<open>
  The same over several pages: when the pages before the last are full and the last page is
  not empty and shorter than 1000, every page is requested once, and the version fetched,
  with one call of \<^verbatim>\<open>GetPolicyVersion\<close>, is the maximum over all pages (and 0).
\<close>

lemma getLatestPolicyVersion_pages:
  assumes "pages \<noteq> []"
    and "\<forall>j<length pages.
           ListPolicyVersions client \<lparr>LPV_PolicyID = policyID, LPV_IncludeRules = False,
             LPV_PageSize = 1000, LPV_Offset = int j * 1000\<rparr> = Inr (pages ! j)"
    and "\<forall>j<length pages - 1. 1000 \<le> length (pages ! j)"
    and "last pages \<noteq> []" and "length (last pages) < 1000"
  shows "getLatestPolicyVersion policyID client =
           Some (GetPolicyVersion client
                   \<lparr>GPV_PolicyID = policyID,
                    GPV_Version = Max (insert 0 (PV_Version ` set (concat pages)))\<rparr>,
                 map (\<lambda>j. CallListPolicyVersions \<lparr>LPV_PolicyID = policyID,
                          LPV_IncludeRules = False, LPV_PageSize = 1000,
                          LPV_Offset = int j * 1000\<rparr>) [0..<length pages]
                 @ [CallGetPolicyVersion
                      \<lparr>GPV_PolicyID = policyID,
                       GPV_Version = Max (insert 0 (PV_Version ` set (concat pages)))\<rparr>])"
proof -
  let ?calls = "map (\<lambda>j. CallListPolicyVersions \<lparr>LPV_PolicyID = policyID,
                          LPV_IncludeRules = False, LPV_PageSize = 1000,
                          LPV_Offset = int j * 1000\<rparr>)"
  from assms(1) obtain n where len: "length pages = Suc n" by (cases pages) simp_all
  have lastp: "last pages = pages ! n" using assms(1) len by (simp add: last_conv_nth)
  have split: "take n pages @ [pages ! n] = pages"
    using len by (metis lessI order_refl take_Suc_conv_app_nth take_all)
  have skipped: "getLatestPolicyVersion_loop policyID client 0 0 [] =
           getLatestPolicyVersion_loop policyID client
             (scanVersions 0 (concat (take n pages))) (int n * 1000) (?calls [0..<n])"
  proof (rule getLatestPolicyVersion_loop_skip)
    show "n \<le> length pages" using len by simp
    show "\<forall>j<n. ListPolicyVersions client \<lparr>LPV_PolicyID = policyID, LPV_IncludeRules = False,
                    LPV_PageSize = 1000, LPV_Offset = int j * 1000\<rparr> = Inr (pages ! j)
               \<and> 1000 \<le> length (pages ! j)"
      using assms(2,3) len by simp
  qed
  have page: "ListPolicyVersions client \<lparr>LPV_PolicyID = policyID, LPV_IncludeRules = False,
             LPV_PageSize = 1000, LPV_Offset = int n * 1000\<rparr> = Inr (pages ! n)"
    using assms(2) len by simp
  have "getLatestPolicyVersion_loop policyID client
             (scanVersions 0 (concat (take n pages))) (int n * 1000) (?calls [0..<n])
        = Some (Inr (scanVersions (scanVersions 0 (concat (take n pages))) (pages ! n)),
                ?calls [0..<n] @ [CallListPolicyVersions \<lparr>LPV_PolicyID = policyID,
                   LPV_IncludeRules = False, LPV_PageSize = 1000, LPV_Offset = int n * 1000\<rparr>])"
    by (rule getLatestPolicyVersion_loop_last [OF page]) (use assms(4,5) lastp in simp_all)
  also have "scanVersions (scanVersions 0 (concat (take n pages))) (pages ! n)
               = scanVersions 0 (concat (take n pages @ [pages ! n]))"
    by (simp add: scanVersions_append)
  also have "?calls [0..<n] @ [CallListPolicyVersions \<lparr>LPV_PolicyID = policyID,
                   LPV_IncludeRules = False, LPV_PageSize = 1000, LPV_Offset = int n * 1000\<rparr>]
               = ?calls [0..<Suc n]"
    by simp
  finally have "getLatestPolicyVersion_loop policyID client 0 0 [] =
      Some (Inr (scanVersions 0 (concat pages)), ?calls [0..<length pages])"
    using skipped unfolding split len by simp
  then show ?thesis
    by (simp add: getLatestPolicyVersion_def scanVersions_Max Let_def split: sum.splits)
qed

lemma thousandVersions_length: "length thousandVersions = 1000"
  by (simp add: thousandVersions_def del: upto_rec_numeral)

lemma thousandVersions_filter:
  "filter (\<lambda>v. PV_PolicyID v = 123) thousandVersions = thousandVersions"
  by (simp add: thousandVersions_def filter_map o_def del: upto_rec_numeral)

lemma thousandVersions_pages:
  "ListPolicyVersions (apiServer [] thousandVersions [] [])
     \<lparr>LPV_PolicyID = 123, LPV_IncludeRules = False, LPV_PageSize = 1000, LPV_Offset = 0\<rparr>
     = Inr thousandVersions"
  "ListPolicyVersions (apiServer [] thousandVersions [] [])
     \<lparr>LPV_PolicyID = 123, LPV_IncludeRules = False, LPV_PageSize = 1000, LPV_Offset = 1000\<rparr>
     = Inr []"
  by (simp_all add: apiServer_def servePage_def thousandVersions_filter thousandVersions_length)

text \<open>
  Claim C2 says that for every sequence of pages the maximum version seen is selected and
  fetched, and that the error for an empty version list is for a policy without versions.
  For a policy with exactly 1000 versions the first page is full, so a second page is
  requested; the server has nothing left and answers with an empty page, and the check
  for an empty page, which is made on every page, returns the error
  "no policy versions found for given policy". \<^verbatim>\<open>GetPolicyVersion\<close> is never called,
  although the maximum, 1000, was seen on the first page.
\<close>

theorem getLatestPolicyVersion_thousand_versions:
  "getLatestPolicyVersion 123 (apiServer [] thousandVersions [] []) =
     Some (Inl (Errorf ''no policy versions found for given policy''),
           [CallListPolicyVersions \<lparr>LPV_PolicyID = 123, LPV_IncludeRules = False,
              LPV_PageSize = 1000, LPV_Offset = 0\<rparr>,
            CallListPolicyVersions \<lparr>LPV_PolicyID = 123, LPV_IncludeRules = False,
              LPV_PageSize = 1000, LPV_Offset = 1000\<rparr>])"
proof -
  let ?client = "apiServer [] thousandVersions [] []"
  have "getLatestPolicyVersion_loop 123 ?client 0 0 [] =
          getLatestPolicyVersion_loop 123 ?client (scanVersions 0 thousandVersions) (0 + 1000)
            ([] @ [CallListPolicyVersions \<lparr>LPV_PolicyID = 123, LPV_IncludeRules = False,
                     LPV_PageSize = 1000, LPV_Offset = 0\<rparr>])"
    by (rule getLatestPolicyVersion_loop_next [OF thousandVersions_pages(1)])
       (simp add: thousandVersions_length)
  also have "\<dots> = Some (Inl (Errorf ''no policy versions found for given policy''),
            ([] @ [CallListPolicyVersions \<lparr>LPV_PolicyID = 123, LPV_IncludeRules = False,
                     LPV_PageSize = 1000, LPV_Offset = 0\<rparr>])
            @ [CallListPolicyVersions \<lparr>LPV_PolicyID = 123, LPV_IncludeRules = False,
                     LPV_PageSize = 1000, LPV_Offset = 0 + 1000\<rparr>])"
    by (rule getLatestPolicyVersion_loop_empty) (simp add: thousandVersions_pages(2))
  finally show ?thesis by (simp add: getLatestPolicyVersion_def)
qed

section \<open>Properties of getActiveVersionAndProperties\<close>

lemma scanActivations_filter:
  "scanActivations network (version, props) acts =
     (let entries = filter (\<lambda>a. PA_Network a = network) acts
      in if entries = [] then (version, props)
         else (PA_PolicyInfo_Version (last entries),
               Some ((case props of None \<Rightarrow> [] | Some ps \<Rightarrow> ps)
                       @ map PA_PropertyInfo_Name entries)))"
  by (induction acts arbitrary: version props) (auto simp: Let_def)

lemma getActiveVersionAndProperties_eq:
  "getActiveVersionAndProperties policy network =
     (if entriesOn policy network = [] then None
      else Some \<lparr>TFA_PolicyID = P_PolicyID policy,
                 TFA_Version = PA_PolicyInfo_Version (last (entriesOn policy network)),
                 TFA_Properties = map PA_PropertyInfo_Name (entriesOn policy network)\<rparr>)"
  by (simp add: getActiveVersionAndProperties_def scanActivations_filter entriesOn_def Let_def)

lemma entriesOn_empty_iff:
  "(entriesOn policy network = []) = (\<forall>a\<in>set (P_Activations policy). PA_Network a \<noteq> network)"
  by (auto simp: entriesOn_def filter_empty_conv)

lemma sorted_le_last:
  fixes xs :: "int list"
  shows "sorted xs \<Longrightarrow> x \<in> set xs \<Longrightarrow> x \<le> last xs"
  by (induction xs) auto

lemma sorted_last_Max:
  fixes xs :: "int list"
  assumes "sorted xs" "xs \<noteq> []"
  shows "last xs = Max (set xs)"
proof -
  have "Max (set xs) = last xs"
  proof (rule Max_eqI)
    show "finite (set xs)" by simp
    show "y \<le> last xs" if "y \<in> set xs" for y
      using assms(1) that by (rule sorted_le_last)
    show "last xs \<in> set xs" using assms(2) by simp
  qed
  then show ?thesis by simp
qed

text \<open>
  Claim C4, amended. For a policy whose activation history has at least one entry for the
  network, \<^verbatim>\<open>getActiveVersionAndProperties\<close> folds the entries of that network into one
  record: its policy ID is that of the policy, its version is the version of the
  \<^emph>\<open>last\<close> of those entries in the order of the history (which is their maximum when
  their versions do not decrease along the history, as when they all share one version),
  and its properties are the property names of those entries in order, so that as a set
  they are the union of those names.
\<close>

theorem getActiveVersionAndProperties_last_entry:
  assumes "\<exists>a\<in>set (P_Activations policy). PA_Network a = network"
  shows "\<exists>r. getActiveVersionAndProperties policy network = Some r
           \<and> TFA_PolicyID r = P_PolicyID policy
           \<and> TFA_Version r = PA_PolicyInfo_Version (last (entriesOn policy network))
           \<and> (sorted (map PA_PolicyInfo_Version (entriesOn policy network))
                \<longrightarrow> TFA_Version r = maxVersionOn policy network)
           \<and> TFA_Properties r = map PA_PropertyInfo_Name (entriesOn policy network)
           \<and> set (TFA_Properties r) =
               {PA_PropertyInfo_Name a | a. a \<in> set (P_Activations policy) \<and> PA_Network a = network}"
proof -
  let ?es = "entriesOn policy network"
  from assms have ne: "?es \<noteq> []" by (simp add: entriesOn_empty_iff)
  have m: "sorted (map PA_PolicyInfo_Version ?es)
             \<Longrightarrow> PA_PolicyInfo_Version (last ?es) = maxVersionOn policy network"
    using sorted_last_Max [of "map PA_PolicyInfo_Version ?es"] ne
    by (simp add: maxVersionOn_def last_map)
  have s: "set (map PA_PropertyInfo_Name ?es) =
             {PA_PropertyInfo_Name a | a. a \<in> set (P_Activations policy) \<and> PA_Network a = network}"
    by (auto simp: entriesOn_def)
  show ?thesis
    using ne m s by (simp add: getActiveVersionAndProperties_eq)
qed

theorem getActiveVersionAndProperties_last_entry_witness:
  "getActiveVersionAndProperties (testPolicy ''ER'' activationsTest) ''staging'' =
     Some \<lparr>TFA_PolicyID = 2, TFA_Version = 2, TFA_Properties = [''test_prp_1'', ''test_prp_2'']\<rparr>"
proof -
  have "\<exists>a\<in>set (P_Activations (testPolicy ''ER'' activationsTest)). PA_Network a = ''staging''"
    by (simp add: testPolicy_def activationsTest_def)
  from getActiveVersionAndProperties_last_entry [OF this]
  show ?thesis
    by (auto simp: testPolicy_def activationsTest_def entriesOn_def)
qed

text \<open>
  Claim C4 as stated fails: with a staging entry of version 3 followed by a staging entry
  of version 2 the record carries version 2, and the maximum is 3.
\<close>

theorem getActiveVersionAndProperties_not_maximum:
  "getActiveVersionAndProperties (testPolicy ''ER'' activationsNewestFirst) ''staging'' =
     Some \<lparr>TFA_PolicyID = 2, TFA_Version = 2, TFA_Properties = [''prp_0'', ''prp_1'']\<rparr>
   \<and> maxVersionOn (testPolicy ''ER'' activationsNewestFirst) ''staging'' = 3
   \<and> map_option TFA_Version
         (getActiveVersionAndProperties (testPolicy ''ER'' activationsNewestFirst) ''staging'')
       \<noteq> Some (maxVersionOn (testPolicy ''ER'' activationsNewestFirst) ''staging'')"
  by (simp add: getActiveVersionAndProperties_def maxVersionOn_def entriesOn_def
        testPolicy_def activationsNewestFirst_def)

section \<open>Properties of createPolicy\<close>

lemma createPolicy_activations_lookup:
  "createPolicy_activations policy ''staging'' =
     getActiveVersionAndProperties policy PolicyActivationNetworkStaging"
  "createPolicy_activations policy ''prod'' =
     getActiveVersionAndProperties policy PolicyActivationNetworkProduction"
  "dom (createPolicy_activations policy) \<subseteq> {''staging'', ''prod''}"
  by (auto simp: createPolicy_activations_def Let_def split: option.splits if_splits)

lemma createPolicy_data_activations:
  assumes "createPolicy rangeOrder policyName section client ProcessTemplates = Some (result, datas)"
    and "findPolicyByName policyName client = Some (Inr policy, calls)"
    and "d \<in> set datas"
  shows "TF_PolicyActivations d = createPolicy_activations policy"
  using assms
  by (auto simp: createPolicy_def Let_def split: option.splits sum.splits if_splits)

lemma createPolicy_not_ALB:
  assumes "findPolicyByName policyName client = Some (Inr policy, calls)"
    and "P_CloudletCode policy \<in> supportedCloudlets"
    and "P_CloudletCode policy \<noteq> ''ALB''"
    and "getLatestPolicyVersion (P_PolicyID policy) client = Some (Inr policyVersion, calls')"
  shows "createPolicy rangeOrder policyName section client ProcessTemplates =
           Some (ProcessTemplates
                   \<lparr>TF_Name = P_Name policy,
                    TF_CloudletCode = P_CloudletCode policy,
                    TF_Description = PV_Description policyVersion,
                    TF_GroupID = P_GroupID policy,
                    TF_MatchRuleFormat = PV_MatchRuleFormat policyVersion,
                    TF_MatchRules = PV_MatchRules policyVersion,
                    TF_PolicyActivations = createPolicy_activations policy,
                    TF_LoadBalancers = [],
                    TF_LoadBalancerActivations = [],
                    TF_Section = section\<rparr>,
                 [\<lparr>TF_Name = P_Name policy,
                    TF_CloudletCode = P_CloudletCode policy,
                    TF_Description = PV_Description policyVersion,
                    TF_GroupID = P_GroupID policy,
                    TF_MatchRuleFormat = PV_MatchRuleFormat policyVersion,
                    TF_MatchRules = PV_MatchRules policyVersion,
                    TF_PolicyActivations = createPolicy_activations policy,
                    TF_LoadBalancers = [],
                    TF_LoadBalancerActivations = [],
                    TF_Section = section\<rparr>])"
  using assms by (simp add: createPolicy_def Let_def)

text \<open>The first two steps of \<^verbatim>\<open>createPolicy\<close> against the server of the tests.\<close>

lemma testServer_find:
  "findPolicyByName ''test_policy''
     (apiServer [somePolicy, testPolicy cloudletCode activations] versions lbvs lbas) =
   Some (Inr (testPolicy cloudletCode activations),
         [CallListPolicies \<lparr>LP_Offset = 0, LP_PageSize = 1000\<rparr>])"
  unfolding findPolicyByName_def
  by (subst findPolicyByName_loop_hit [where page = "[somePolicy, testPolicy cloudletCode activations]"
         and p = "testPolicy cloudletCode activations"])
     (simp_all add: apiServer_def servePage_def somePolicy_def testPolicy_def)

lemma testServer_latest:
  "getLatestPolicyVersion 2 (apiServer policies (testVersions rules) lbvs lbas) =
   Some (Inr (testVersions rules ! 1),
         [CallListPolicyVersions \<lparr>LPV_PolicyID = 2, LPV_IncludeRules = False,
            LPV_PageSize = 1000, LPV_Offset = 0\<rparr>,
          CallGetPolicyVersion \<lparr>GPV_PolicyID = 2, GPV_Version = 2\<rparr>])"
  by (subst getLatestPolicyVersion_single_page [where versions = "testVersions rules"])
     (simp_all add: apiServer_def servePage_def testVersions_def)

lemma createPolicy_ALB:
  assumes "findPolicyByName policyName client = Some (Inr policy, calls)"
    and "P_CloudletCode policy = ''ALB''"
    and "getLatestPolicyVersion (P_PolicyID policy) client = Some (Inr policyVersion, calls')"
    and "getOriginIDs rangeOrder (PV_MatchRules policyVersion) = Inr originIDs"
    and "getLoadBalancers client originIDs = Inr loadBalancers"
    and "getLoadBalancerActivations client originIDs = Inr loadBalancerActivations"
  shows "createPolicy rangeOrder policyName section client ProcessTemplates =
           Some (ProcessTemplates
                   \<lparr>TF_Name = P_Name policy,
                    TF_CloudletCode = ''ALB'',
                    TF_Description = PV_Description policyVersion,
                    TF_GroupID = P_GroupID policy,
                    TF_MatchRuleFormat = PV_MatchRuleFormat policyVersion,
                    TF_MatchRules = PV_MatchRules policyVersion,
                    TF_PolicyActivations = createPolicy_activations policy,
                    TF_LoadBalancers = loadBalancers,
                    TF_LoadBalancerActivations = loadBalancerActivations,
                    TF_Section = section\<rparr>,
                 [\<lparr>TF_Name = P_Name policy,
                    TF_CloudletCode = ''ALB'',
                    TF_Description = PV_Description policyVersion,
                    TF_GroupID = P_GroupID policy,
                    TF_MatchRuleFormat = PV_MatchRuleFormat policyVersion,
                    TF_MatchRules = PV_MatchRules policyVersion,
                    TF_PolicyActivations = createPolicy_activations policy,
                    TF_LoadBalancers = loadBalancers,
                    TF_LoadBalancerActivations = loadBalancerActivations,
                    TF_Section = section\<rparr>])"
  using assms by (simp add: createPolicy_def supportedCloudlets_def Let_def)

text \<open>
  Claim C5. For every policy and network, \<^verbatim>\<open>getActiveVersionAndProperties\<close> returns
  nothing exactly when no activation entry is for the network, and otherwise one record
  whose properties are the property names of all entries for the network. The function
  has no error result. In \<^verbatim>\<open>createPolicy\<close>, for the policy found by name, every data
  object handed to the template processor has under the key "staging" (under "prod")
  exactly what the function returned for the staging (production) network, so the key is
  absent when it returned nothing, and has no other key. And for every supported cloudlet
  type, ALB included, once the latest version is fetched (and, for ALB, once the origin
  IDs, the load balancers and their activations are fetched), the processor is called
  with one data object and its answer is the result, whatever the activations are: an
  absent activation is never an error.
\<close>

theorem getActiveVersionAndProperties_one_record_or_none:
  "(case getActiveVersionAndProperties policy network of
      None \<Rightarrow> \<forall>a\<in>set (P_Activations policy). PA_Network a \<noteq> network
    | Some r \<Rightarrow> (\<exists>a\<in>set (P_Activations policy). PA_Network a = network)
        \<and> TFA_Properties r = map PA_PropertyInfo_Name (entriesOn policy network))
   \<and> (findPolicyByName policyName client = Some (Inr policy, calls) \<longrightarrow>
        (\<forall>result datas. createPolicy rangeOrder policyName section client ProcessTemplates
                            = Some (result, datas) \<longrightarrow>
           (\<forall>d\<in>set datas.
              TF_PolicyActivations d ''staging''
                = getActiveVersionAndProperties policy PolicyActivationNetworkStaging
            \<and> TF_PolicyActivations d ''prod''
                = getActiveVersionAndProperties policy PolicyActivationNetworkProduction
            \<and> dom (TF_PolicyActivations d) \<subseteq> {''staging'', ''prod''}))
        \<and> (P_CloudletCode policy
               \<in> {''ALB'', ''AP'', ''AS'', ''CD'', ''ER'', ''FR'', ''IG'', ''VP''} \<longrightarrow>
           (\<forall>policyVersion calls'.
              getLatestPolicyVersion (P_PolicyID policy) client = Some (Inr policyVersion, calls')
              \<longrightarrow>
              (P_CloudletCode policy = ''ALB'' \<longrightarrow>
                 (\<exists>originIDs loadBalancers loadBalancerActivations.
                    getOriginIDs rangeOrder (PV_MatchRules policyVersion) = Inr originIDs
                    \<and> getLoadBalancers client originIDs = Inr loadBalancers
                    \<and> getLoadBalancerActivations client originIDs
                        = Inr loadBalancerActivations))
              \<longrightarrow> (\<exists>d. createPolicy rangeOrder policyName section client ProcessTemplates
                         = Some (ProcessTemplates d, [d])
                       \<and> TF_PolicyActivations d ''staging''
                           = getActiveVersionAndProperties policy PolicyActivationNetworkStaging
                       \<and> TF_PolicyActivations d ''prod''
                           = getActiveVersionAndProperties policy
                               PolicyActivationNetworkProduction))))"
proof (intro conjI impI allI ballI)
  show "case getActiveVersionAndProperties policy network of
      None \<Rightarrow> \<forall>a\<in>set (P_Activations policy). PA_Network a \<noteq> network
    | Some r \<Rightarrow> (\<exists>a\<in>set (P_Activations policy). PA_Network a = network)
        \<and> TFA_Properties r = map PA_PropertyInfo_Name (entriesOn policy network)"
    using entriesOn_empty_iff [of policy network]
    by (auto simp: getActiveVersionAndProperties_eq)
next
  fix result datas d
  assume f: "findPolicyByName policyName client = Some (Inr policy, calls)"
    and c: "createPolicy rangeOrder policyName section client ProcessTemplates = Some (result, datas)"
    and d: "d \<in> set datas"
  have eq: "TF_PolicyActivations d = createPolicy_activations policy"
    by (rule createPolicy_data_activations [OF c f d])
  show "TF_PolicyActivations d ''staging''
          = getActiveVersionAndProperties policy PolicyActivationNetworkStaging"
    and "TF_PolicyActivations d ''prod''
          = getActiveVersionAndProperties policy PolicyActivationNetworkProduction"
    and "dom (TF_PolicyActivations d) \<subseteq> {''staging'', ''prod''}"
    unfolding eq by (rule createPolicy_activations_lookup)+
next
  fix policyVersion calls'
  assume f: "findPolicyByName policyName client = Some (Inr policy, calls)"
    and c: "P_CloudletCode policy
              \<in> {''ALB'', ''AP'', ''AS'', ''CD'', ''ER'', ''FR'', ''IG'', ''VP''}"
    and v: "getLatestPolicyVersion (P_PolicyID policy) client = Some (Inr policyVersion, calls')"
    and alb: "P_CloudletCode policy = ''ALB'' \<longrightarrow>
                 (\<exists>originIDs loadBalancers loadBalancerActivations.
                    getOriginIDs rangeOrder (PV_MatchRules policyVersion) = Inr originIDs
                    \<and> getLoadBalancers client originIDs = Inr loadBalancers
                    \<and> getLoadBalancerActivations client originIDs
                        = Inr loadBalancerActivations)"
  have "\<exists>d. createPolicy rangeOrder policyName section client ProcessTemplates
              = Some (ProcessTemplates d, [d])
            \<and> TF_PolicyActivations d = createPolicy_activations policy"
  proof (cases "P_CloudletCode policy = ''ALB''")
    case True
    with alb obtain originIDs loadBalancers loadBalancerActivations where
      "getOriginIDs rangeOrder (PV_MatchRules policyVersion) = Inr originIDs"
      "getLoadBalancers client originIDs = Inr loadBalancers"
      "getLoadBalancerActivations client originIDs = Inr loadBalancerActivations"
      by blast
    from createPolicy_ALB [OF f True v this, of "section" ProcessTemplates]
    show ?thesis
      by (intro exI conjI, assumption) simp
  next
    case False
    from c have "P_CloudletCode policy \<in> supportedCloudlets"
      by (simp add: supportedCloudlets_def)
    from createPolicy_not_ALB [OF f this False v, of rangeOrder "section" ProcessTemplates]
    show ?thesis
      by (intro exI conjI, assumption) simp
  qed
  then show "\<exists>d. createPolicy rangeOrder policyName section client ProcessTemplates
                = Some (ProcessTemplates d, [d])
              \<and> TF_PolicyActivations d ''staging''
                  = getActiveVersionAndProperties policy PolicyActivationNetworkStaging
              \<and> TF_PolicyActivations d ''prod''
                  = getActiveVersionAndProperties policy PolicyActivationNetworkProduction"
    by (auto simp: createPolicy_activations_lookup)
qed

text \<open>
  The tests "without activations", "with activations ER" and "produce output ALB" of
  \<^verbatim>\<open>createPolicy\<close>, the last with two origins: no error in any of them, an empty map in the
  first and in the third, both keys in the second.
\<close>

theorem getActiveVersionAndProperties_one_record_or_none_witness:
  "getActiveVersionAndProperties (testPolicy ''ER'' []) ''staging'' = None
   \<and> (\<exists>d. createPolicy insertionOrder ''test_policy'' ''test_section''
               (apiServer [somePolicy, testPolicy ''ER'' []] (testVersions [ruleER]) [] [])
               acceptAll = Some (None, [d])
            \<and> dom (TF_PolicyActivations d) = {})
   \<and> (\<exists>d. createPolicy insertionOrder ''test_policy'' ''test_section''
               (apiServer [somePolicy, testPolicy ''ER'' activationsTest] (testVersions [ruleER]) [] [])
               acceptAll = Some (None, [d])
            \<and> TF_PolicyActivations d ''staging'' =
                Some \<lparr>TFA_PolicyID = 2, TFA_Version = 2,
                       TFA_Properties = [''test_prp_1'', ''test_prp_2'']\<rparr>
            \<and> TF_PolicyActivations d ''prod'' =
                Some \<lparr>TFA_PolicyID = 2, TFA_Version = 1, TFA_Properties = [''test_prp_1'']\<rparr>)
   \<and> (\<exists>d. createPolicy insertionOrder ''test_policy'' ''test_section'' twoOriginServer acceptAll
               = Some (None, [d])
            \<and> dom (TF_PolicyActivations d) = {})"
proof -
  have run: "\<exists>d. createPolicy insertionOrder ''test_policy'' ''test_section''
               (apiServer [somePolicy, testPolicy code acts] (testVersions rules) lbvs lbas)
               acceptAll = Some (None, [d])
            \<and> TF_PolicyActivations d ''staging''
                 = getActiveVersionAndProperties (testPolicy code acts) ''staging''
            \<and> TF_PolicyActivations d ''prod''
                 = getActiveVersionAndProperties (testPolicy code acts) ''prod''
            \<and> dom (TF_PolicyActivations d) \<subseteq> {''staging'', ''prod''}"
    if code: "code \<in> {''ALB'', ''AP'', ''AS'', ''CD'', ''ER'', ''FR'', ''IG'', ''VP''}"
      and alb: "code = ''ALB'' \<longrightarrow>
                 (\<exists>originIDs loadBalancers loadBalancerActivations.
                    getOriginIDs insertionOrder rules = Inr originIDs
                    \<and> getLoadBalancers
                         (apiServer [somePolicy, testPolicy code acts] (testVersions rules) lbvs lbas)
                         originIDs = Inr loadBalancers
                    \<and> getLoadBalancerActivations
                         (apiServer [somePolicy, testPolicy code acts] (testVersions rules) lbvs lbas)
                         originIDs = Inr loadBalancerActivations)"
    for code acts rules lbvs lbas
  proof -
    let ?client = "apiServer [somePolicy, testPolicy code acts] (testVersions rules) lbvs lbas"
    note inst = getActiveVersionAndProperties_one_record_or_none
      [of "testPolicy code acts" "''staging''" "''test_policy''" ?client
          "[CallListPolicies \<lparr>LP_Offset = 0, LP_PageSize = 1000\<rparr>]"
          insertionOrder "''test_section''" acceptAll]
    have code': "P_CloudletCode (testPolicy code acts)
                  \<in> {''ALB'', ''AP'', ''AS'', ''CD'', ''ER'', ''FR'', ''IG'', ''VP''}"
      using code by (simp add: testPolicy_def)
    have latest: "getLatestPolicyVersion (P_PolicyID (testPolicy code acts)) ?client =
       Some (Inr (testVersions rules ! 1),
         [CallListPolicyVersions \<lparr>LPV_PolicyID = 2, LPV_IncludeRules = False,
            LPV_PageSize = 1000, LPV_Offset = 0\<rparr>,
          CallGetPolicyVersion \<lparr>GPV_PolicyID = 2, GPV_Version = 2\<rparr>])"
      using testServer_latest by (simp add: testPolicy_def)
    have alb': "P_CloudletCode (testPolicy code acts) = ''ALB'' \<longrightarrow>
                 (\<exists>originIDs loadBalancers loadBalancerActivations.
                    getOriginIDs insertionOrder (PV_MatchRules (testVersions rules ! 1))
                      = Inr originIDs
                    \<and> getLoadBalancers ?client originIDs = Inr loadBalancers
                    \<and> getLoadBalancerActivations ?client originIDs
                        = Inr loadBalancerActivations)"
      using alb by (simp add: testPolicy_def testVersions_def)
    note found = inst [THEN conjunct2, THEN mp, OF testServer_find]
    from found [THEN conjunct2, THEN mp, OF code', THEN spec, THEN spec, THEN mp, OF latest,
                THEN mp, OF alb']
    obtain d where d: "createPolicy insertionOrder ''test_policy'' ''test_section'' ?client acceptAll
                         = Some (acceptAll d, [d])"
      by (elim exE conjE)
    have "d \<in> set [d]" by simp
    with found [THEN conjunct1, THEN spec, THEN spec, THEN mp, OF d]
    have "TF_PolicyActivations d ''staging''
            = getActiveVersionAndProperties (testPolicy code acts) PolicyActivationNetworkStaging
          \<and> TF_PolicyActivations d ''prod''
            = getActiveVersionAndProperties (testPolicy code acts) PolicyActivationNetworkProduction
          \<and> dom (TF_PolicyActivations d) \<subseteq> {''staging'', ''prod''}"
      by (rule bspec)
    with d show ?thesis
      by (auto simp: acceptAll_def PolicyActivationNetworkStaging_def
            PolicyActivationNetworkProduction_def)
  qed
  have none: "getActiveVersionAndProperties (testPolicy code []) network = None" for code network
    using getActiveVersionAndProperties_one_record_or_none
      [of "testPolicy code []" network]
    by (cases "getActiveVersionAndProperties (testPolicy code []) network")
       (simp_all add: testPolicy_def)
  have some:
    "getActiveVersionAndProperties (testPolicy ''ER'' activationsTest) ''staging'' =
       Some \<lparr>TFA_PolicyID = 2, TFA_Version = 2, TFA_Properties = [''test_prp_1'', ''test_prp_2'']\<rparr>"
    "getActiveVersionAndProperties (testPolicy ''ER'' activationsTest) ''prod'' =
       Some \<lparr>TFA_PolicyID = 2, TFA_Version = 1, TFA_Properties = [''test_prp_1'']\<rparr>"
    by (simp_all add: getActiveVersionAndProperties_def testPolicy_def activationsTest_def)
  have empty: "\<exists>d. createPolicy insertionOrder ''test_policy'' ''test_section''
               (apiServer [somePolicy, testPolicy code []] (testVersions rules) lbvs lbas)
               acceptAll = Some (None, [d])
            \<and> dom (TF_PolicyActivations d) = {}"
    if r: "\<exists>d. createPolicy insertionOrder ''test_policy'' ''test_section''
               (apiServer [somePolicy, testPolicy code []] (testVersions rules) lbvs lbas)
               acceptAll = Some (None, [d])
            \<and> TF_PolicyActivations d ''staging''
                 = getActiveVersionAndProperties (testPolicy code []) ''staging''
            \<and> TF_PolicyActivations d ''prod''
                 = getActiveVersionAndProperties (testPolicy code []) ''prod''
            \<and> dom (TF_PolicyActivations d) \<subseteq> {''staging'', ''prod''}"
    for code rules lbvs lbas
  proof -
    from r obtain d where
      d: "createPolicy insertionOrder ''test_policy'' ''test_section''
            (apiServer [somePolicy, testPolicy code []] (testVersions rules) lbvs lbas)
            acceptAll = Some (None, [d])"
      and keys: "TF_PolicyActivations d ''staging''
                   = getActiveVersionAndProperties (testPolicy code []) ''staging''"
        "TF_PolicyActivations d ''prod''
                   = getActiveVersionAndProperties (testPolicy code []) ''prod''"
        "dom (TF_PolicyActivations d) \<subseteq> {''staging'', ''prod''}"
      by (elim exE conjE)
    have "dom (TF_PolicyActivations d) = {}"
    proof (rule ccontr)
      assume "dom (TF_PolicyActivations d) \<noteq> {}"
      then obtain k where k: "k \<in> dom (TF_PolicyActivations d)" by blast
      with keys(3) have "k = ''staging'' \<or> k = ''prod''" by blast
      with k keys(1,2) none show False by (auto simp: dom_def)
    qed
    with d show ?thesis by (intro exI conjI)
  qed
  have er: "''ER'' \<in> {''ALB'', ''AP'', ''AS'', ''CD'', ''ER'', ''FR'', ''IG'', ''VP''}"
    "''ER'' = ''ALB'' \<longrightarrow> X" for X
    by simp_all
  have ids: "getOriginIDs insertionOrder twoOriginRules = Inr [''origin_a'', ''origin_b'']"
    by (simp add: getOriginIDs_def twoOriginRules_def insertionOrder_def)
  have lbs: "getLoadBalancers twoOriginServer [''origin_a'', ''origin_b'']
               = Inr [twoOriginVersions ! 0, twoOriginVersions ! 1]"
    by (simp add: getLoadBalancers_def twoOriginServer_def apiServer_def twoOriginVersions_def
          zeroLoadBalancerVersion_def)
  have lbas: "getLoadBalancerActivations twoOriginServer [''origin_a'', ''origin_b'']
               = Inr [twoOriginActivations ! 0, twoOriginActivations ! 1]"
    by (simp add: getLoadBalancerActivations_def getApplicationLoadBalancerActivation_def
          twoOriginServer_def apiServer_def twoOriginActivations_def sort_Slice_def
          insertionSort_func_def LoadBalancerActivationNetworkProduction_def
          LoadBalancerActivationNetworkStaging_def)
  have albRun: "\<exists>d. createPolicy insertionOrder ''test_policy'' ''test_section''
               (apiServer [somePolicy, testPolicy ''ALB'' []] (testVersions twoOriginRules)
                  twoOriginVersions twoOriginActivations)
               acceptAll = Some (None, [d])
            \<and> dom (TF_PolicyActivations d) = {}"
  proof (rule empty, rule run)
    show "''ALB'' \<in> {''ALB'', ''AP'', ''AS'', ''CD'', ''ER'', ''FR'', ''IG'', ''VP''}" by simp
    show "''ALB'' = ''ALB'' \<longrightarrow>
            (\<exists>originIDs loadBalancers loadBalancerActivations.
               getOriginIDs insertionOrder twoOriginRules = Inr originIDs
               \<and> getLoadBalancers
                    (apiServer [somePolicy, testPolicy ''ALB'' []] (testVersions twoOriginRules)
                       twoOriginVersions twoOriginActivations)
                    originIDs = Inr loadBalancers
               \<and> getLoadBalancerActivations
                    (apiServer [somePolicy, testPolicy ''ALB'' []] (testVersions twoOriginRules)
                       twoOriginVersions twoOriginActivations)
                    originIDs = Inr loadBalancerActivations)"
      using ids lbs lbas unfolding twoOriginServer_def by blast
  qed
  from run [where code = "''ER''" and acts = activationsTest and rules = "[ruleER]"
              and lbvs = "[]" and lbas = "[]", OF er] some
  have both: "\<exists>d. createPolicy insertionOrder ''test_policy'' ''test_section''
               (apiServer [somePolicy, testPolicy ''ER'' activationsTest] (testVersions [ruleER]) [] [])
               acceptAll = Some (None, [d])
            \<and> TF_PolicyActivations d ''staging'' =
                Some \<lparr>TFA_PolicyID = 2, TFA_Version = 2,
                       TFA_Properties = [''test_prp_1'', ''test_prp_2'']\<rparr>
            \<and> TF_PolicyActivations d ''prod'' =
                Some \<lparr>TFA_PolicyID = 2, TFA_Version = 1, TFA_Properties = [''test_prp_1'']\<rparr>"
    by (elim exE conjE) (intro exI conjI, assumption, simp_all)
  from empty [OF run [where code = "''ER''" and acts = "[]" and rules = "[ruleER]"
                         and lbvs = "[]" and lbas = "[]", OF er]] both
    albRun [folded twoOriginServer_def] none [of "''ER''" "''staging''"]
  show ?thesis
    by (intro conjI)
qed

text \<open>
  Claim C8. When the policy found by name has a cloudlet code outside
  ALB, AP, AS, CD, ER, FR, IG, VP, \<^verbatim>\<open>createPolicy\<close> returns an error that wraps
  \<^verbatim>\<open>ErrCloudletTypeNotSupported\<close> (so \<^verbatim>\<open>errors.Is\<close> finds it) and whose message ends with
  the unsupported code, and the template processor has not been called.
\<close>

theorem createPolicy_unsupported_cloudlet:
  assumes "findPolicyByName policyName client = Some (Inr policy, calls)"
    and "P_CloudletCode policy \<notin> {''ALB'', ''AP'', ''AS'', ''CD'', ''ER'', ''FR'', ''IG'', ''VP''}"
  shows "\<exists>err. createPolicy rangeOrder policyName section client ProcessTemplates
                  = Some (Some err, [])
           \<and> err = Wrapf ErrCloudletTypeNotSupported (P_CloudletCode policy)
           \<and> errors_Is err ErrCloudletTypeNotSupported
           \<and> Error err = ''cloudlet type not supported: '' @ P_CloudletCode policy"
  using assms by (simp add: createPolicy_def supportedCloudlets_def)

text \<open>The test "unsupported cloudlet type": the policy found has the code ABC.\<close>

theorem createPolicy_unsupported_cloudlet_witness:
  "createPolicy insertionOrder ''test_policy'' ''test_section''
     (apiServer [somePolicy, testPolicy ''ABC'' []] [] [] []) acceptAll
   = Some (Some (Wrapf ErrCloudletTypeNotSupported ''ABC''), [])
   \<and> Error (Wrapf ErrCloudletTypeNotSupported ''ABC'') = ''cloudlet type not supported: ABC''"
proof -
  have "P_CloudletCode (testPolicy ''ABC'' [])
          \<notin> {''ALB'', ''AP'', ''AS'', ''CD'', ''ER'', ''FR'', ''IG'', ''VP''}"
    by (simp add: testPolicy_def)
  from createPolicy_unsupported_cloudlet [OF testServer_find this]
  show ?thesis by (auto simp: testPolicy_def)
qed

section \<open>Properties of checkForResource\<close>

text \<open>
  Claim C9. \<^verbatim>\<open>checkForResource\<close> returns true only if the loaded state (the one already
  in \<^verbatim>\<open>tfState\<close>, or the one \<^verbatim>\<open>readTfState\<close> has just loaded without error) holds a
  resource of exactly that type and name. When no state is loaded and \<^verbatim>\<open>readTfState\<close>
  returns an error, it returns false; the error goes nowhere, the result being a boolean.
\<close>

theorem checkForResource_state_only:
  "(checkForResource readTfState rtype name tfWorkPath tfState = (Returns True, tfState') \<longrightarrow>
      (\<exists>st. tfState' = Some st
         \<and> (tfState = Some st \<or> tfState = None \<and> readTfState tfWorkPath = (None, Some st))
         \<and> (\<exists>r\<in>set (TFS_Resources st). TFR_Type r = rtype \<and> TFR_Name r = name)))
   \<and> (tfState = None \<and> fst (readTfState tfWorkPath) = Some err \<longrightarrow>
        checkForResource readTfState rtype name tfWorkPath tfState
          = (Returns False, snd (readTfState tfWorkPath)))"
  by (auto simp: checkForResource_def find_Some_iff
           split: if_splits option.splits prod.splits)

theorem checkForResource_state_only_witness:
  "checkForResource readZoneState ''akamai_dns_zone'' ''example_com'' ''./'' None
     = (Returns True, Some zoneState)
   \<and> checkForResource readFails ''akamai_dns_zone'' ''example_com'' ''./'' None
     = (Returns False, None)"
proof -
  have "checkForResource readZoneState ''akamai_dns_zone'' ''example_com'' ''./'' None
          = (Returns True, Some zoneState)"
    by (simp add: checkForResource_def readZoneState_def zoneState_def)
  moreover from this checkForResource_state_only
    [of readZoneState "''akamai_dns_zone''" "''example_com''" "''./''" None "Some zoneState"]
  have "\<exists>r\<in>set (TFS_Resources zoneState).
          TFR_Type r = ''akamai_dns_zone'' \<and> TFR_Name r = ''example_com''"
    by auto
  moreover from checkForResource_state_only
    [of readFails _ _ "''./''" None _ "Errorf ''open terraform.tfstate: no such file or directory''"]
  have "checkForResource readFails ''akamai_dns_zone'' ''example_com'' ''./'' None
          = (Returns False, None)"
    by (simp add: readFails_def)
  ultimately show ?thesis by simp
qed

section \<open>The rendered activation resources\<close>

lemma showInt_digits: "showInt 1 = ''1''" "showInt 2 = ''2''"
  by (simp_all add: showInt_def showNat.simps digitChar_def)

text \<open>
  Claim C6. For the policy of the scenario, \<^verbatim>\<open>createPolicy\<close> hands one data object to the
  template processor and returns no error. Rendered, that object has exactly two
  activation resources: the staging one with version 2 and the properties prp_0 and
  prp_1, then the prod one with version 1 and the property prp_0, which declares
  \<^verbatim>\<open>depends_on\<close> with the address of the staging resource; as text, these are the lines of
  the expected \<^verbatim>\<open>policy.tf\<close>. The record of each network is computed by the code; the
  rendering is the model of the template described above.
\<close>

theorem export_with_activations_renders_two_resources:
  "\<exists>d. createPolicy insertionOrder ''test_policy'' ''test_section''
          (apiServer [somePolicy, testPolicy ''ER'' activationsExport] (testVersions [ruleER]) [] [])
          acceptAll = Some (None, [d])
      \<and> policyActivationResources d =
          [\<lparr>AR_Label = ''policy_activation_staging'', AR_PolicyID = 2, AR_Network = ''staging'',
            AR_Version = 2, AR_AssociatedProperties = [''prp_0'', ''prp_1''],
            AR_DependsOn = []\<rparr>,
           \<lparr>AR_Label = ''policy_activation_prod'', AR_PolicyID = 2, AR_Network = ''prod'',
            AR_Version = 1, AR_AssociatedProperties = [''prp_0''],
            AR_DependsOn = [''akamai_cloudlets_policy_activation.policy_activation_staging'']\<rparr>]
      \<and> renderPolicyActivations d = expected_policy_tf_activations"
proof -
  let ?policy = "testPolicy ''ER'' activationsExport"
  let ?client = "apiServer [somePolicy, ?policy] (testVersions [ruleER]) [] []"
  let ?d = "\<lparr>TF_Name = P_Name ?policy,
             TF_CloudletCode = P_CloudletCode ?policy,
             TF_Description = PV_Description (testVersions [ruleER] ! 1),
             TF_GroupID = P_GroupID ?policy,
             TF_MatchRuleFormat = PV_MatchRuleFormat (testVersions [ruleER] ! 1),
             TF_MatchRules = PV_MatchRules (testVersions [ruleER] ! 1),
             TF_PolicyActivations = createPolicy_activations ?policy,
             TF_LoadBalancers = [],
             TF_LoadBalancerActivations = [],
             TF_Section = ''test_section''\<rparr>"
  have latest: "getLatestPolicyVersion (P_PolicyID ?policy) ?client =
       Some (Inr (testVersions [ruleER] ! 1),
         [CallListPolicyVersions \<lparr>LPV_PolicyID = 2, LPV_IncludeRules = False,
            LPV_PageSize = 1000, LPV_Offset = 0\<rparr>,
          CallGetPolicyVersion \<lparr>GPV_PolicyID = 2, GPV_Version = 2\<rparr>])"
    using testServer_latest by (simp add: testPolicy_def)
  have run: "createPolicy insertionOrder ''test_policy'' ''test_section'' ?client acceptAll
               = Some (acceptAll ?d, [?d])"
    by (rule createPolicy_not_ALB [OF testServer_find _ _ latest])
       (simp_all add: testPolicy_def supportedCloudlets_def)
  have staging: "TF_PolicyActivations ?d ''staging'' =
      Some \<lparr>TFA_PolicyID = 2, TFA_Version = 2, TFA_Properties = [''prp_0'', ''prp_1'']\<rparr>"
    by (simp add: createPolicy_activations_lookup getActiveVersionAndProperties_def
          PolicyActivationNetworkStaging_def testPolicy_def activationsExport_def)
  have prod: "TF_PolicyActivations ?d ''prod'' =
      Some \<lparr>TFA_PolicyID = 2, TFA_Version = 1, TFA_Properties = [''prp_0'']\<rparr>"
    by (simp add: createPolicy_activations_lookup getActiveVersionAndProperties_def
          PolicyActivationNetworkProduction_def testPolicy_def activationsExport_def)
  have resources: "policyActivationResources ?d =
          [\<lparr>AR_Label = ''policy_activation_staging'', AR_PolicyID = 2, AR_Network = ''staging'',
            AR_Version = 2, AR_AssociatedProperties = [''prp_0'', ''prp_1''],
            AR_DependsOn = []\<rparr>,
           \<lparr>AR_Label = ''policy_activation_prod'', AR_PolicyID = 2, AR_Network = ''prod'',
            AR_Version = 1, AR_AssociatedProperties = [''prp_0''],
            AR_DependsOn = [''akamai_cloudlets_policy_activation.policy_activation_staging'']\<rparr>]"
    unfolding policyActivationResources_def staging prod
    by (simp add: activationResource_def)
  have rendered: "renderPolicyActivations ?d = expected_policy_tf_activations"
    unfolding renderPolicyActivations_def resources
    by (simp add: renderActivationResource_def showInt_digits quoted_def
          expected_policy_tf_activations_def)
  from run resources rendered show ?thesis
    unfolding acceptAll_def by blast
qed

section \<open>The order of the exported load balancers\<close>

text \<open>
  What does not depend on the iteration order: the origin IDs are the non-empty origin IDs
  of the rules, each once, and two runs return the same IDs up to their order.
\<close>

lemma collectOriginIDs_keys:
  assumes "collectOriginIDs originIDs rules = Inr keys" and "distinct originIDs"
  shows "distinct keys \<and>
         set keys = set originIDs \<union>
           {ALB_ForwardSettings_OriginID r | r.
              PtrMatchRuleALB r \<in> set rules \<and> ALB_ForwardSettings_OriginID r \<noteq> []}"
  using assms
proof (induction originIDs rules rule: collectOriginIDs.induct)
  case (1 originIDs)
  then show ?case by simp
next
  case (2 originIDs ruleALB rules)
  then show ?case
    by (auto simp: Let_def split: if_splits)
next
  case (3 originIDs goType body rules)
  then show ?case by simp
qed

lemma getOriginIDs_same_set:
  assumes "getOriginIDs rangeOrder1 rules = Inr ids1"
    and "getOriginIDs rangeOrder2 rules = Inr ids2"
    and "\<forall>keys. validRangeOrder rangeOrder1 keys \<and> validRangeOrder rangeOrder2 keys"
  shows "mset ids1 = mset ids2"
  using assms
  by (auto simp: getOriginIDs_def validRangeOrder_def split: sum.splits)

lemma twoOriginServer_createPolicy:
  "createPolicy rangeOrder ''test_policy'' ''test_section'' twoOriginServer acceptAll =
     (case getLoadBalancers twoOriginServer (rangeOrder [''origin_a'', ''origin_b'']) of
        Inl err \<Rightarrow> Some (Some (Wrapf ErrFetchingVersion (Error err)), [])
      | Inr loadBalancers \<Rightarrow>
          (case getLoadBalancerActivations twoOriginServer
                  (rangeOrder [''origin_a'', ''origin_b'']) of
             Inl err \<Rightarrow> Some (Some (Wrapf ErrFetchingVersion (Error err)), [])
           | Inr loadBalancerActivations \<Rightarrow>
               Some (None,
                 [\<lparr>TF_Name = ''test_policy'', TF_CloudletCode = ''ALB'',
                   TF_Description = ''version 2 description'', TF_GroupID = 234,
                   TF_MatchRuleFormat = ''1.0'', TF_MatchRules = twoOriginRules,
                   TF_PolicyActivations = createPolicy_activations (testPolicy ''ALB'' []),
                   TF_LoadBalancers = loadBalancers,
                   TF_LoadBalancerActivations = loadBalancerActivations,
                   TF_Section = ''test_section''\<rparr>])))"
proof -
  have latest: "getLatestPolicyVersion 2 twoOriginServer =
       Some (Inr (testVersions twoOriginRules ! 1),
         [CallListPolicyVersions \<lparr>LPV_PolicyID = 2, LPV_IncludeRules = False,
            LPV_PageSize = 1000, LPV_Offset = 0\<rparr>,
          CallGetPolicyVersion \<lparr>GPV_PolicyID = 2, GPV_Version = 2\<rparr>])"
    unfolding twoOriginServer_def by (rule testServer_latest)
  have find: "findPolicyByName ''test_policy'' twoOriginServer =
       Some (Inr (testPolicy ''ALB'' []), [CallListPolicies \<lparr>LP_Offset = 0, LP_PageSize = 1000\<rparr>])"
    unfolding twoOriginServer_def by (rule testServer_find)
  have ids: "getOriginIDs rangeOrder twoOriginRules = Inr (rangeOrder [''origin_a'', ''origin_b''])"
    by (simp add: getOriginIDs_def twoOriginRules_def)
  have fields: "P_CloudletCode (testPolicy ''ALB'' []) = ''ALB''" "P_PolicyID (testPolicy ''ALB'' []) = 2"
    "P_Name (testPolicy ''ALB'' []) = ''test_policy''" "P_GroupID (testPolicy ''ALB'' []) = 234"
    by (simp_all add: testPolicy_def)
  show ?thesis
    by (simp add: createPolicy_def find latest ids fields supportedCloudlets_def Let_def
          testVersions_def acceptAll_def split: sum.splits)
qed

lemma twoOriginServer_loadBalancers:
  "getLoadBalancers twoOriginServer [''origin_a'', ''origin_b'']
     = Inr [twoOriginVersions ! 0, twoOriginVersions ! 1]"
  "getLoadBalancers twoOriginServer [''origin_b'', ''origin_a'']
     = Inr [twoOriginVersions ! 1, twoOriginVersions ! 0]"
  by (simp_all add: getLoadBalancers_def twoOriginServer_def apiServer_def twoOriginVersions_def
        zeroLoadBalancerVersion_def)

lemma twoOriginServer_activations:
  "getLoadBalancerActivations twoOriginServer [''origin_a'', ''origin_b'']
     = Inr [twoOriginActivations ! 0, twoOriginActivations ! 1]"
  "getLoadBalancerActivations twoOriginServer [''origin_b'', ''origin_a'']
     = Inr [twoOriginActivations ! 1, twoOriginActivations ! 0]"
  by (simp_all add: getLoadBalancerActivations_def getApplicationLoadBalancerActivation_def
        twoOriginServer_def apiServer_def twoOriginActivations_def sort_Slice_def
        insertionSort_func_def LoadBalancerActivationNetworkProduction_def
        LoadBalancerActivationNetworkStaging_def)

text \<open>
  Claim C7 asks that two runs over the same API responses assemble the same
  \<^verbatim>\<open>TFPolicyData\<close>, the order of \<^verbatim>\<open>LoadBalancers\<close> and \<^verbatim>\<open>LoadBalancerActivations\<close>
  included. \<^verbatim>\<open>getOriginIDs\<close> ranges over a Go map, and the two slices follow the order
  of that iteration. Here are two runs against the same server, both with an iteration
  order that visits each of the two keys once: one exports the origins as a, b and the
  other as b, a.
\<close>

theorem export_order_follows_map_iteration:
  "validRangeOrder insertionOrder [''origin_a'', ''origin_b'']
   \<and> validRangeOrder reverseOrder [''origin_a'', ''origin_b'']
   \<and> exportedOrigins (createPolicy insertionOrder ''test_policy'' ''test_section''
                         twoOriginServer acceptAll)
       = [([''origin_a'', ''origin_b''], [''origin_a'', ''origin_b''])]
   \<and> exportedOrigins (createPolicy reverseOrder ''test_policy'' ''test_section''
                         twoOriginServer acceptAll)
       = [([''origin_b'', ''origin_a''], [''origin_b'', ''origin_a''])]"
  by (simp add: validRangeOrder_def insertionOrder_def reverseOrder_def exportedOrigins_def
        twoOriginServer_createPolicy twoOriginServer_loadBalancers twoOriginServer_activations
        twoOriginVersions_def twoOriginActivations_def)

section \<open>The newest activation of a load balancer\<close>

text \<open>Without an activation on the network the result is \<^verbatim>\<open>nil\<close>, and no error.\<close>

lemma getApplicationLoadBalancerActivation_no_match:
  assumes "ListLoadBalancerActivations client originID = Inr activations"
    and "\<forall>act\<in>set activations. LBA_Network act \<noteq> network"
  shows "getApplicationLoadBalancerActivation client originID network = Inr None"
proof -
  from assms(2) have "filter (\<lambda>act. LBA_Network act = network) activations = []"
    by (simp add: filter_empty_conv)
  with assms(1) show ?thesis
    by (simp add: getApplicationLoadBalancerActivation_def sort_Slice_def insertionSort_func_def)
qed

text \<open>
  Claim C10 says that the activation returned is the one with the most recent
  \<^verbatim>\<open>ActivatedDate\<close> among those of the requested network. The comparison function
  handed to \<^verbatim>\<open>sort.Slice\<close> compares the dates at positions \<open>i\<close> and \<open>j\<close> of the
  unfiltered list, while the positions are those of the filtered one. For the three
  activations above and the staging network, the two staging activations are ordered by
  comparing the first staging activation with the production activation, and the
  \<^emph>\<open>older\<close> staging activation is returned.
\<close>

theorem getApplicationLoadBalancerActivation_returns_older:
  "getApplicationLoadBalancerActivation
     (apiServer [] [] [] [stagingNewer, productionNewest, stagingOlder])
     ''test_origin'' LoadBalancerActivationNetworkStaging
   = Inr (Some stagingOlder)
   \<and> LBA_Network stagingNewer = LoadBalancerActivationNetworkStaging
   \<and> LBA_ActivatedDate stagingOlder < LBA_ActivatedDate stagingNewer"
  by (simp add: getApplicationLoadBalancerActivation_def apiServer_def sort_Slice_def
        insertionSort_func_def swap_at_def stagingNewer_def productionNewest_def stagingOlder_def
        LoadBalancerActivationNetworkStaging_def)

end
